theory Spec2Isabelle
  imports Main "HOL-Library.Word"
begin

section \<open>The dynamic buffer of vis/Code/WebGL.js\<close>

text \<open>
  The class \<open>glDynamicBuffer\<close> keeps a typed array on the CPU side (the mirror) and a
  WebGL buffer or texture of matching size. Its methods are embedded as functions on a
  pair of the object and the WebGL context. The context is the global \<open>gl\<close> of the
  source: it is modelled by the trace of the calls it has received, a counter for the
  objects it has handed out, its two bindings and the contents of its buffers and
  textures.

  Numbers are mathematical integers (\<open>int\<close>): entry counts, arities and sizes. The one
  place where the source leaves integer arithmetic is the 32-bit shift of
  \<open>ResizeToFitNextPow2\<close>, which is modelled on \<open>32 word\<close>. Typed array elements are
  their bit patterns, so that copying is exact and no floating point arithmetic is
  needed. \<open>console.log\<close> is not modelled.

  The JavaScript engine allocates array buffers of up to \<open>max_bytes\<close> bytes and throws a
  RangeError for a longer one. That number belongs to the engine and not to the source:
  it is the first argument of every function that allocates.
\<close>

subsection \<open>Values of the JavaScript runtime\<close>

datatype js_error = Error string | RangeError

text \<open>The function \<open>assert\<close> of the source: \<open>None\<close> when nothing is thrown. An omitted or
  empty message is replaced by the default one (\<open>message || "Assertion failed"\<close>).\<close>

definition assert :: "bool \<Rightarrow> string option \<Rightarrow> js_error option" where
  "assert condition message =
     (if \<not> condition
      then Some (Error (case message of
                          None \<Rightarrow> ''Assertion failed''
                        | Some m \<Rightarrow> if m = [] then ''Assertion failed'' else m))
      else None)"

datatype typed_array = Float32Array "32 word list" | Uint8Array "8 word list"

fun ta_length :: "typed_array \<Rightarrow> nat" where
  "ta_length (Float32Array xs) = length xs"
| "ta_length (Uint8Array xs) = length xs"

text \<open>The first \<open>k\<close> elements of a typed array, as an array of the same kind.\<close>

fun ta_take :: "nat \<Rightarrow> typed_array \<Rightarrow> typed_array" where
  "ta_take k (Float32Array xs) = Float32Array (take k xs)"
| "ta_take k (Uint8Array xs) = Uint8Array (take k xs)"

fun ta_all_zero :: "typed_array \<Rightarrow> bool" where
  "ta_all_zero (Float32Array xs) = list_all (\<lambda>x. x = 0) xs"
| "ta_all_zero (Uint8Array xs) = list_all (\<lambda>x. x = 0) xs"

text \<open>The bytes of a typed array, as a WebGL call reads them from its array buffer: a
  float is its four bytes, lowest first.\<close>

definition float32_bytes :: "32 word \<Rightarrow> 8 word list" where
  "float32_bytes w = [ucast w, ucast (drop_bit 8 w), ucast (drop_bit 16 w), ucast (drop_bit 24 w)]"

fun ta_bytes :: "typed_array \<Rightarrow> 8 word list" where
  "ta_bytes (Float32Array xs) = concat (map float32_bytes xs)"
| "ta_bytes (Uint8Array xs) = xs"

text \<open>The largest length \<open>ToIndex\<close> accepts, \<open>Number.MAX_SAFE_INTEGER\<close>.\<close>

definition max_safe_integer :: int where
  "max_safe_integer = 2 ^ 53 - 1"

text \<open>\<open>new Float32Array(len)\<close> and \<open>new Uint8Array(len)\<close>: a RangeError for a negative
  length, for a length above \<open>2 ^ 53 - 1\<close> and for an array buffer of more bytes than the
  engine allocates; a zero-filled array otherwise.\<close>

definition allocates :: "int \<Rightarrow> int \<Rightarrow> int \<Rightarrow> bool" where
  "allocates max_bytes element_bytes len =
     (0 \<le> len \<and> len \<le> max_safe_integer \<and> element_bytes * len \<le> max_bytes)"

definition new_Float32Array :: "int \<Rightarrow> int \<Rightarrow> js_error + typed_array" where
  "new_Float32Array max_bytes len =
     (if allocates max_bytes 4 len then Inr (Float32Array (replicate (nat len) 0))
      else Inl RangeError)"

definition new_Uint8Array :: "int \<Rightarrow> int \<Rightarrow> js_error + typed_array" where
  "new_Uint8Array max_bytes len =
     (if allocates max_bytes 1 len then Inr (Uint8Array (replicate (nat len) 0))
      else Inl RangeError)"

text \<open>Conversion of elements between the two kinds, as \<open>TypedArray.prototype.set\<close> does
  it when source and target differ: a byte becomes the float of the same value, a float
  is truncated towards zero and reduced modulo 256 (NaN and the infinities give 0).\<close>

fun ilog2 :: "nat \<Rightarrow> nat" where
  "ilog2 n = (if n < 2 then 0 else Suc (ilog2 (n div 2)))"

definition float32_of_uint8 :: "8 word \<Rightarrow> 32 word" where
  "float32_of_uint8 b =
     (let n = unat b in
      if n = 0 then 0
      else let e = ilog2 n
           in word_of_nat ((127 + e) * 2 ^ 23 + (n - 2 ^ e) * 2 ^ (23 - e)))"

definition uint8_of_float32 :: "32 word \<Rightarrow> 8 word" where
  "uint8_of_float32 w =
     (let negative = bit w 31;
          e = unat (drop_bit 23 w) mod 256;
          m = 2 ^ 23 + unat w mod 2 ^ 23;
          magnitude = (if e = 255 \<or> e < 127 then 0
                       else if 150 \<le> e then m * 2 ^ (e - 150)
                       else m div 2 ^ (150 - e))
      in word_of_int (if negative then - int magnitude else int magnitude))"

text \<open>\<open>target.set(source)\<close> with offset 0: a RangeError when the source is longer than
  the target, otherwise the source's elements overwrite the target's prefix.\<close>

fun ta_set :: "typed_array \<Rightarrow> typed_array \<Rightarrow> js_error + typed_array" where
  "ta_set (Float32Array t) (Float32Array s) =
     (if length t < length s then Inl RangeError
      else Inr (Float32Array (s @ drop (length s) t)))"
| "ta_set (Uint8Array t) (Uint8Array s) =
     (if length t < length s then Inl RangeError
      else Inr (Uint8Array (s @ drop (length s) t)))"
| "ta_set (Float32Array t) (Uint8Array s) =
     (if length t < length s then Inl RangeError
      else Inr (Float32Array (map float32_of_uint8 s @ drop (length s) t)))"
| "ta_set (Uint8Array t) (Float32Array s) =
     (if length t < length s then Inl RangeError
      else Inr (Uint8Array (map uint8_of_float32 s @ drop (length s) t)))"

text \<open>\<open>n << 1\<close>: the operand is reduced to 32 bits, shifted, and read as a signed
  32-bit integer.\<close>

definition shl1 :: "int \<Rightarrow> int" where
  "shl1 n = sint (push_bit 1 (word_of_int n :: 32 word))"

subsection \<open>The WebGL context\<close>

text \<open>The constants of the context that the source names.\<close>

datatype gl_enum =
    FLOAT | BYTE | UNSIGNED_BYTE
  | ARRAY_BUFFER | DYNAMIC_DRAW
  | TEXTURE_2D | TEXTURE_MIN_FILTER | TEXTURE_MAG_FILTER | TEXTURE_WRAP_S | TEXTURE_WRAP_T
  | NEAREST | CLAMP_TO_EDGE | ALPHA

text \<open>The calls the dynamic buffer issues, with their arguments. Buffer and texture
  objects are numbered in the order of their creation; a field of the object that is
  still \<open>undefined\<close> is \<open>None\<close>.\<close>

datatype gl_call =
    CreateBuffer nat
  | BindBuffer gl_enum "nat option"
  | BufferData gl_enum "int option" gl_enum
  | BufferSubData gl_enum int "typed_array option"
  | CreateTexture nat
  | BindTexture gl_enum "nat option"
  | TexParameteri gl_enum gl_enum gl_enum
  | TexImage2D gl_enum int gl_enum "int option" int int gl_enum gl_enum "typed_array option"
  | GetAttribLocation nat string
  | EnableVertexAttribArray int
  | VertexAttribPointer int int gl_enum bool int int
  | VertexAttribDivisor int int

text \<open>The context: the calls it has received, the number of objects it has created, the
  attribute locations of its programs, the buffer bound to \<open>ARRAY_BUFFER\<close> and the
  texture bound to \<open>TEXTURE_2D\<close>, and the bytes of the data store of each buffer and of
  the image of each texture (the first entry for an object is the current one).\<close>

record WebGLRenderingContext =
  calls :: "gl_call list"
  objects :: nat
  attributes :: "((nat \<times> string) \<times> int) list"
  array_buffer_binding :: "nat option"
  texture_binding_2d :: "nat option"
  buffer_data :: "(nat \<times> 8 word list) list"
  texture_data :: "(nat \<times> 8 word list) list"

definition issue :: "gl_call \<Rightarrow> WebGLRenderingContext \<Rightarrow> WebGLRenderingContext" where
  "issue c gl = gl\<lparr>calls := calls gl @ [c]\<rparr>"

definition createBuffer :: "WebGLRenderingContext \<Rightarrow> nat \<times> WebGLRenderingContext" where
  "createBuffer gl =
     (objects gl, gl\<lparr>calls := calls gl @ [CreateBuffer (objects gl)], objects := Suc (objects gl)\<rparr>)"

definition createTexture :: "WebGLRenderingContext \<Rightarrow> nat \<times> WebGLRenderingContext" where
  "createTexture gl =
     (objects gl, gl\<lparr>calls := calls gl @ [CreateTexture (objects gl)], objects := Suc (objects gl)\<rparr>)"

definition bindBuffer ::
  "gl_enum \<Rightarrow> nat option \<Rightarrow> WebGLRenderingContext \<Rightarrow> WebGLRenderingContext" where
  "bindBuffer target b gl =
     (let gl = issue (BindBuffer target b) gl
      in if target = ARRAY_BUFFER then gl\<lparr>array_buffer_binding := b\<rparr> else gl)"

definition bindTexture ::
  "gl_enum \<Rightarrow> nat option \<Rightarrow> WebGLRenderingContext \<Rightarrow> WebGLRenderingContext" where
  "bindTexture target t gl =
     (let gl = issue (BindTexture target t) gl
      in if target = TEXTURE_2D then gl\<lparr>texture_binding_2d := t\<rparr> else gl)"

text \<open>\<open>gl.bufferData(target, size, usage)\<close>: the bound buffer gets a new data store of
  \<open>size\<close> bytes, initialized to 0. Without a bound buffer or with a negative size the call
  only raises a GL error.\<close>

definition bufferData ::
  "gl_enum \<Rightarrow> int option \<Rightarrow> gl_enum \<Rightarrow> WebGLRenderingContext \<Rightarrow> WebGLRenderingContext" where
  "bufferData target bytes usage gl =
     (let gl = issue (BufferData target bytes usage) gl
      in case (if target = ARRAY_BUFFER then array_buffer_binding gl else None) of
           None \<Rightarrow> gl
         | Some b \<Rightarrow>
             (case bytes of
                None \<Rightarrow> gl
              | Some n \<Rightarrow>
                  if n < 0 then gl
                  else gl\<lparr>buffer_data := (b, replicate (nat n) 0) # buffer_data gl\<rparr>))"

text \<open>\<open>gl.bufferSubData(target, offset, data)\<close>: the bytes of \<open>data\<close> replace those of the
  bound buffer's data store from \<open>offset\<close> on; when they do not fit the call only raises
  a GL error.\<close>

definition bufferSubData ::
  "gl_enum \<Rightarrow> int \<Rightarrow> typed_array option \<Rightarrow> WebGLRenderingContext \<Rightarrow> WebGLRenderingContext" where
  "bufferSubData target offset data gl =
     (let gl = issue (BufferSubData target offset data) gl
      in case (if target = ARRAY_BUFFER then array_buffer_binding gl else None) of
           None \<Rightarrow> gl
         | Some b \<Rightarrow>
             (case map_of (buffer_data gl) b of
                None \<Rightarrow> gl
              | Some store \<Rightarrow>
                  (case data of
                     None \<Rightarrow> gl
                   | Some a \<Rightarrow>
                       if 0 \<le> offset \<and> nat offset + length (ta_bytes a) \<le> length store
                       then gl\<lparr>buffer_data :=
                               (b, take (nat offset) store @ ta_bytes a @
                                   drop (nat offset + length (ta_bytes a)) store) #
                               buffer_data gl\<rparr>
                       else gl)))"

definition texParameteri ::
  "gl_enum \<Rightarrow> gl_enum \<Rightarrow> gl_enum \<Rightarrow> WebGLRenderingContext \<Rightarrow> WebGLRenderingContext" where
  "texParameteri target pname param gl = issue (TexParameteri target pname param) gl"

text \<open>\<open>gl.texImage2D(target, level, internalformat, width, height, border, format, type,
  pixels)\<close>, for the form of the call that the source uses (level 0 of the texture bound
  to \<open>TEXTURE_2D\<close>, format \<open>ALPHA\<close> and type \<open>UNSIGNED_BYTE\<close>, one byte a texel): the
  texture gets the first \<open>width * height\<close> bytes of a \<open>Uint8Array\<close> as its image, or a
  zero image without pixels; with pixels of another kind or too few of them the call only
  raises a GL error. A call of another form is recorded in the trace only.\<close>

definition texImage2D ::
  "gl_enum \<Rightarrow> int \<Rightarrow> gl_enum \<Rightarrow> int option \<Rightarrow> int \<Rightarrow> int \<Rightarrow> gl_enum \<Rightarrow> gl_enum \<Rightarrow>
   typed_array option \<Rightarrow> WebGLRenderingContext \<Rightarrow> WebGLRenderingContext" where
  "texImage2D target level internalformat width height border format type pixels gl =
     (let gl = issue (TexImage2D target level internalformat width height border format type
                        pixels) gl
      in case (if target = TEXTURE_2D \<and> format = ALPHA \<and> internalformat = ALPHA \<and>
                  type = UNSIGNED_BYTE \<and> level = 0 \<and> border = 0
               then texture_binding_2d gl else None) of
           None \<Rightarrow> gl
         | Some t \<Rightarrow>
             (case width of
                None \<Rightarrow> gl
              | Some w \<Rightarrow>
                  if w < 0 \<or> height < 0 then gl
                  else (case pixels of
                          None \<Rightarrow>
                            gl\<lparr>texture_data :=
                                 (t, replicate (nat (w * height)) 0) # texture_data gl\<rparr>
                        | Some (Uint8Array xs) \<Rightarrow>
                            if nat (w * height) \<le> length xs
                            then gl\<lparr>texture_data :=
                                      (t, take (nat (w * height)) xs) # texture_data gl\<rparr>
                            else gl
                        | Some (Float32Array xs) \<Rightarrow> gl)))"

text \<open>\<open>gl.getAttribLocation\<close>: the location the context has for the attribute of the
  program, \<open>-1\<close> when the program has no such attribute.\<close>

definition getAttribLocation ::
  "nat \<Rightarrow> string \<Rightarrow> WebGLRenderingContext \<Rightarrow> int \<times> WebGLRenderingContext" where
  "getAttribLocation program name gl =
     (case map_of (attributes gl) (program, name) of None \<Rightarrow> - 1 | Some l \<Rightarrow> l,
      issue (GetAttribLocation program name) gl)"

text \<open>A call that transmits array data to a GPU resource. \<open>bufferData\<close> with a size only
  allocates; \<open>texImage2D\<close> without pixels only allocates.\<close>

fun is_upload :: "gl_call \<Rightarrow> bool" where
  "is_upload (BufferSubData _ _ _) = True"
| "is_upload (TexImage2D _ _ _ _ _ _ _ _ (Some _)) = True"
| "is_upload _ = False"

definition uploads :: "WebGLRenderingContext \<Rightarrow> gl_call list" where
  "uploads gl = filter is_upload (calls gl)"

subsection \<open>The object\<close>

text \<open>The frozen object \<open>glDynamicBufferType\<close>.\<close>

definition glDynamicBufferType_Buffer :: int where
  "glDynamicBufferType_Buffer = 1"

definition glDynamicBufferType_Texture :: int where
  "glDynamicBufferType_Texture = 2"

text \<open>The fields of a \<open>glDynamicBuffer\<close>. The constructor assigns the first four; the
  others are assigned by \<open>Resize\<close> and are \<open>undefined\<close> (\<open>None\<close>) until then.\<close>

record glDynamicBuffer =
  elementType :: gl_enum
  nbElements :: int
  bufferType :: int
  dirty :: bool
  nbEntries :: "int option"
  cpuArray :: "typed_array option"
  nbElementBytes :: "int option"
  nbBytes :: "int option"
  buffer :: "nat option"
  texture :: "nat option"

type_synonym state = "glDynamicBuffer \<times> WebGLRenderingContext"

text \<open>What a method does: it returns (\<open>Inr\<close>, with the object and the context after
  the call) or throws (\<open>Inl\<close>, with the error and the object and the context as they are
  at the throw).\<close>

type_synonym outcome = "(js_error \<times> state) + state"

fun outcome_state :: "outcome \<Rightarrow> state" where
  "outcome_state (Inl (e, s)) = s"
| "outcome_state (Inr s) = s"

subsection \<open>Resize\<close>

text \<open>Lines 172 to 188: the new CPU array, by element type. \<open>nbElementBytes\<close> is assigned
  before the array is allocated.\<close>

definition Resize_cpuArray ::
  "int \<Rightarrow> glDynamicBuffer \<Rightarrow> int \<Rightarrow> (js_error \<times> glDynamicBuffer) + glDynamicBuffer" where
  "Resize_cpuArray max_bytes this nb_entries =
     (case elementType this of
        FLOAT \<Rightarrow>
          (let this = this\<lparr>nbElementBytes := Some 4\<rparr> in
           case new_Float32Array max_bytes (nbElements this * nb_entries) of
             Inl e \<Rightarrow> Inl (e, this)
           | Inr a \<Rightarrow> Inr (this\<lparr>cpuArray := Some a\<rparr>))
      | BYTE \<Rightarrow>
          (let this = this\<lparr>nbElementBytes := Some 1\<rparr> in
           case new_Uint8Array max_bytes (nbElements this * nb_entries) of
             Inl e \<Rightarrow> Inl (e, this)
           | Inr a \<Rightarrow> Inr (this\<lparr>cpuArray := Some a\<rparr>))
      | _ \<Rightarrow>
          (case assert False (Some ''Unsupported dynamic buffer element type'') of
             Some e \<Rightarrow> Inl (e, this)
           | None \<Rightarrow> Inr this))"

text \<open>Lines 193 to 203: the values of the previous array are copied over, when there is
  a previous array.\<close>

definition Resize_copy ::
  "typed_array option \<Rightarrow> glDynamicBuffer \<Rightarrow> (js_error \<times> glDynamicBuffer) + glDynamicBuffer" where
  "Resize_copy old_array this =
     (case old_array of
        None \<Rightarrow> Inr this
      | Some old \<Rightarrow>
          (case cpuArray this of
             None \<Rightarrow> Inr this
           | Some new \<Rightarrow>
               (case ta_set new old of
                  Inl e \<Rightarrow> Inl (e, this)
                | Inr a \<Rightarrow> Inr (this\<lparr>cpuArray := Some a\<rparr>))))"

text \<open>Lines 205 to 233: the GPU resource, by buffer type.\<close>

definition Resize_gpu :: "state \<Rightarrow> outcome" where
  "Resize_gpu s =
     (let (this, gl) = s in
      if bufferType this = glDynamicBufferType_Buffer then
        (let (b, gl) = createBuffer gl;
             this = this\<lparr>buffer := Some b\<rparr>;
             gl = bindBuffer ARRAY_BUFFER (buffer this) gl;
             gl = bufferData ARRAY_BUFFER (nbBytes this) DYNAMIC_DRAW gl
         in Inr (this, gl))
      else if bufferType this = glDynamicBufferType_Texture then
        (let (t, gl) = createTexture gl;
             this = this\<lparr>texture := Some t\<rparr>;
             gl = bindTexture TEXTURE_2D (texture this) gl;
             gl = texParameteri TEXTURE_2D TEXTURE_MIN_FILTER NEAREST gl;
             gl = texParameteri TEXTURE_2D TEXTURE_MAG_FILTER NEAREST gl;
             gl = texParameteri TEXTURE_2D TEXTURE_WRAP_S CLAMP_TO_EDGE gl;
             gl = texParameteri TEXTURE_2D TEXTURE_WRAP_T CLAMP_TO_EDGE gl
         in case assert (elementType this = BYTE) None of
              Some e \<Rightarrow> Inl (e, (this, gl))
            | None \<Rightarrow>
                (case assert (nbElements this = 1) None of
                   Some e \<Rightarrow> Inl (e, (this, gl))
                 | None \<Rightarrow>
                     Inr (this, texImage2D TEXTURE_2D 0 ALPHA (nbEntries this) 1 0
                                  ALPHA UNSIGNED_BYTE (cpuArray this) gl)))
      else
        (case assert False (Some ''Unsupported dynamic buffer type'') of
           Some e \<Rightarrow> Inl (e, (this, gl))
         | None \<Rightarrow> Inr (this, gl)))"

definition Resize :: "int \<Rightarrow> int \<Rightarrow> state \<Rightarrow> outcome" where
  "Resize max_bytes nb_entries s =
     (let (this, gl) = s;
          this = this\<lparr>nbEntries := Some nb_entries\<rparr>;
          old_array = cpuArray this
      in case Resize_cpuArray max_bytes this nb_entries of
           Inl (e, this) \<Rightarrow> Inl (e, (this, gl))
         | Inr this \<Rightarrow>
             (let this = this\<lparr>nbBytes :=
                     map_option (\<lambda>bytes. bytes * nbElements this * nb_entries)
                       (nbElementBytes this)\<rparr>
              in case Resize_copy old_array this of
                   Inl (e, this) \<Rightarrow> Inl (e, (this, gl))
                 | Inr this \<Rightarrow> Resize_gpu (this, gl)))"

subsection \<open>The constructor and the other methods\<close>

text \<open>\<open>new glDynamicBuffer(element_type, nb_elements, nb_entries, buffer_type)\<close>. An
  omitted \<open>buffer_type\<close> is \<open>None\<close>. When the constructor throws there is no object; the
  outcome still shows the calls that reached the context.\<close>

definition constructor ::
  "int \<Rightarrow> gl_enum \<Rightarrow> int \<Rightarrow> int \<Rightarrow> int option \<Rightarrow> WebGLRenderingContext \<Rightarrow> outcome" where
  "constructor max_bytes element_type nb_elements nb_entries buffer_type gl =
     Resize max_bytes nb_entries
       (\<lparr>elementType = element_type,
         nbElements = nb_elements,
         bufferType = (case buffer_type of
                         None \<Rightarrow> glDynamicBufferType_Buffer
                       | Some t \<Rightarrow> t),
         dirty = False,
         nbEntries = None, cpuArray = None, nbElementBytes = None, nbBytes = None,
         buffer = None, texture = None\<rparr>, gl)"

definition BindAsInstanceAttribute :: "nat \<Rightarrow> string \<Rightarrow> state \<Rightarrow> outcome" where
  "BindAsInstanceAttribute program attrib_name s =
     (let (this, gl) = s in
      case assert (bufferType this = glDynamicBufferType_Buffer)
             (Some ''Can only call BindAsInstanceAttribute with Buffer types'') of
        Some e \<Rightarrow> Inl (e, (this, gl))
      | None \<Rightarrow>
          (let gl = bindBuffer ARRAY_BUFFER (buffer this) gl;
               (attrib_location, gl) = getAttribLocation program attrib_name gl;
               gl = issue (EnableVertexAttribArray attrib_location) gl;
               gl = issue (VertexAttribPointer attrib_location (nbElements this)
                             (elementType this) False 0 0) gl;
               gl = issue (VertexAttribDivisor attrib_location 1) gl
           in Inr (this, gl)))"

definition UploadData :: "state \<Rightarrow> state" where
  "UploadData s =
     (let (this, gl) = s in
      if bufferType this = glDynamicBufferType_Buffer then
        (let gl = bindBuffer ARRAY_BUFFER (buffer this) gl;
             gl = bufferSubData ARRAY_BUFFER 0 (cpuArray this) gl
         in (this, gl))
      else if bufferType this = glDynamicBufferType_Texture then
        (let gl = bindTexture TEXTURE_2D (texture this) gl;
             gl = texImage2D TEXTURE_2D 0 ALPHA (nbEntries this) 1 0
                    ALPHA UNSIGNED_BYTE (cpuArray this) gl
         in (this, gl))
      else (this, gl))"

definition UploadDirtyData :: "state \<Rightarrow> state" where
  "UploadDirtyData s =
     (let (this, gl) = s in
      if dirty this then
        (let (this, gl) = UploadData (this, gl) in (this\<lparr>dirty := False\<rparr>, gl))
      else (this, gl))"

text \<open>The loop of \<open>ResizeToFitNextPow2\<close>. It need not end: \<open>None\<close> is a loop that runs
  forever.\<close>

partial_function (option) ResizeToFitNextPow2_loop :: "int \<Rightarrow> int \<Rightarrow> int option" where
  "ResizeToFitNextPow2_loop target_count nb_entries =
     (if target_count > nb_entries
      then ResizeToFitNextPow2_loop target_count (shl1 nb_entries)
      else Some nb_entries)"

text \<open>With \<open>this.nbEntries\<close> undefined both comparisons of the method are false, and the
  method does nothing.\<close>

definition ResizeToFitNextPow2 :: "int \<Rightarrow> int \<Rightarrow> state \<Rightarrow> outcome option" where
  "ResizeToFitNextPow2 max_bytes target_count s =
     (let (this, gl) = s in
      case nbEntries this of
        None \<Rightarrow> Some (Inr (this, gl))
      | Some current \<Rightarrow>
          (case ResizeToFitNextPow2_loop target_count current of
             None \<Rightarrow> None
           | Some nb_entries \<Rightarrow>
               Some (if nb_entries > current then Resize max_bytes nb_entries (this, gl)
                     else Inr (this, gl))))"

subsection \<open>Calls from outside\<close>

text \<open>The surface that rendering code calls on an object it has constructed.\<close>

datatype method_call =
    CallResizeToFitNextPow2 int
  | CallUploadData
  | CallUploadDirtyData
  | CallBindAsInstanceAttribute nat string

fun call_method :: "int \<Rightarrow> method_call \<Rightarrow> state \<Rightarrow> outcome option" where
  "call_method max_bytes (CallResizeToFitNextPow2 target_count) s =
     ResizeToFitNextPow2 max_bytes target_count s"
| "call_method max_bytes CallUploadData s = Some (Inr (UploadData s))"
| "call_method max_bytes CallUploadDirtyData s = Some (Inr (UploadDirtyData s))"
| "call_method max_bytes (CallBindAsInstanceAttribute program attrib_name) s =
     Some (BindAsInstanceAttribute program attrib_name s)"

text \<open>A sequence of calls on one object. A caller that catches an error goes on with the
  object as the throw left it; \<open>None\<close> when one of the calls does not return.\<close>

fun run :: "int \<Rightarrow> method_call list \<Rightarrow> state \<Rightarrow> state option" where
  "run max_bytes [] s = Some s"
| "run max_bytes (c # cs) s =
     (case call_method max_bytes c s of
        None \<Rightarrow> None
      | Some r \<Rightarrow> run max_bytes cs (outcome_state r))"



subsection \<open>Properties of an object\<close>

fun ta_kind :: "typed_array \<Rightarrow> gl_enum" where
  "ta_kind (Float32Array xs) = FLOAT"
| "ta_kind (Uint8Array xs) = BYTE"

text \<open>The bytes of one element, as \<open>Resize\<close> assigns them to \<open>nbElementBytes\<close>.\<close>

fun element_bytes :: "gl_enum \<Rightarrow> int" where
  "element_bytes FLOAT = 4"
| "element_bytes t = 1"

text \<open>\<open>mirror.length == elementsPerEntry * capacity\<close>, on an object whose mirror and
  capacity are defined.\<close>

definition mirror_length_ok :: "glDynamicBuffer \<Rightarrow> bool" where
  "mirror_length_ok this =
     (case nbEntries this of
        None \<Rightarrow> False
      | Some c \<Rightarrow>
          (case cpuArray this of
             None \<Rightarrow> False
           | Some a \<Rightarrow> int (ta_length a) = nbElements this * c))"

text \<open>What holds of every object the constructor returns: a supported element type, a
  buffer type of \<open>glDynamicBufferType\<close>, byte elements of arity one behind a texture, a
  mirror of the kind of the element type, of the length of the invariant and of a size
  that the engine allocates.\<close>

definition constructed :: "int \<Rightarrow> glDynamicBuffer \<Rightarrow> bool" where
  "constructed max_bytes this =
     ((elementType this = FLOAT \<or> elementType this = BYTE) \<and>
      (bufferType this = glDynamicBufferType_Buffer \<or>
       bufferType this = glDynamicBufferType_Texture \<and>
         elementType this = BYTE \<and> nbElements this = 1) \<and>
      (case cpuArray this of
         None \<Rightarrow> False
       | Some a \<Rightarrow>
           ta_kind a = elementType this \<and>
           allocates max_bytes (element_bytes (elementType this)) (int (ta_length a))) \<and>
      mirror_length_ok this)"

text \<open>The capacity of an object is positive.\<close>

definition positive_capacity :: "glDynamicBuffer \<Rightarrow> bool" where
  "positive_capacity this = (case nbEntries this of None \<Rightarrow> False | Some c \<Rightarrow> 0 < c)"

text \<open>The bytes the GPU resource of an object holds: the data store of its buffer, or
  the image of its texture.\<close>

definition gpu_contents :: "state \<Rightarrow> 8 word list option" where
  "gpu_contents s =
     (let (this, gl) = s in
      if bufferType this = glDynamicBufferType_Buffer then
        (case buffer this of None \<Rightarrow> None | Some b \<Rightarrow> map_of (buffer_data gl) b)
      else if bufferType this = glDynamicBufferType_Texture then
        (case texture this of None \<Rightarrow> None | Some t \<Rightarrow> map_of (texture_data gl) t)
      else None)"

subsection \<open>Example objects\<close>

text \<open>An engine that allocates array buffers of up to \<open>2 ^ 31 - 1\<close> bytes, and an initial
  context in which nothing has been called yet.\<close>

definition max_bytes0 :: int where
  "max_bytes0 = 2147483647"

definition gl0 :: WebGLRenderingContext where
  "gl0 = \<lparr>calls = [], objects = 0, attributes = [((0, ''position''), 2)],
          array_buffer_binding = None, texture_binding_2d = None,
          buffer_data = [], texture_data = []\<rparr>"

text \<open>\<open>new glDynamicBuffer(gl.FLOAT, 3, 4, glDynamicBufferType.Buffer)\<close> in that context:
  the object and the context after the call.\<close>

definition float_example :: state where
  "float_example =
     (\<lparr>elementType = FLOAT, nbElements = 3, bufferType = 1, dirty = False,
       nbEntries = Some 4, cpuArray = Some (Float32Array (replicate 12 0)),
       nbElementBytes = Some 4, nbBytes = Some 48, buffer = Some 0, texture = None\<rparr>,
      \<lparr>calls = [CreateBuffer 0, BindBuffer ARRAY_BUFFER (Some 0),
                BufferData ARRAY_BUFFER (Some 48) DYNAMIC_DRAW],
       objects = 1, attributes = [((0, ''position''), 2)],
       array_buffer_binding = Some 0, texture_binding_2d = None,
       buffer_data = [(0, replicate 48 0)], texture_data = []\<rparr>)"

text \<open>\<open>new glDynamicBuffer(gl.BYTE, 1, 1)\<close>.\<close>

definition byte_example :: state where
  "byte_example =
     (\<lparr>elementType = BYTE, nbElements = 1, bufferType = 1, dirty = False,
       nbEntries = Some 1, cpuArray = Some (Uint8Array [0]),
       nbElementBytes = Some 1, nbBytes = Some 1, buffer = Some 0, texture = None\<rparr>,
      \<lparr>calls = [CreateBuffer 0, BindBuffer ARRAY_BUFFER (Some 0),
                BufferData ARRAY_BUFFER (Some 1) DYNAMIC_DRAW],
       objects = 1, attributes = [((0, ''position''), 2)],
       array_buffer_binding = Some 0, texture_binding_2d = None,
       buffer_data = [(0, [0])], texture_data = []\<rparr>)"


text \<open>\<open>new glDynamicBuffer(gl.BYTE, 1, 1, glDynamicBufferType.Texture)\<close>.\<close>

definition texture_example :: state where
  "texture_example =
     (\<lparr>elementType = BYTE, nbElements = 1, bufferType = 2, dirty = False,
       nbEntries = Some 1, cpuArray = Some (Uint8Array [0]),
       nbElementBytes = Some 1, nbBytes = Some 1, buffer = None, texture = Some 0\<rparr>,
      \<lparr>calls = [CreateTexture 0, BindTexture TEXTURE_2D (Some 0),
                TexParameteri TEXTURE_2D TEXTURE_MIN_FILTER NEAREST,
                TexParameteri TEXTURE_2D TEXTURE_MAG_FILTER NEAREST,
                TexParameteri TEXTURE_2D TEXTURE_WRAP_S CLAMP_TO_EDGE,
                TexParameteri TEXTURE_2D TEXTURE_WRAP_T CLAMP_TO_EDGE,
                TexImage2D TEXTURE_2D 0 ALPHA (Some 1) 1 0 ALPHA UNSIGNED_BYTE
                  (Some (Uint8Array [0]))],
       objects = 1, attributes = [((0, ''position''), 2)],
       array_buffer_binding = None, texture_binding_2d = Some 0,
       buffer_data = [], texture_data = [(0, [0])]\<rparr>)"

section \<open>Lemmas\<close>

subsection \<open>The shift and the loop\<close>

lemma shl1_double: "0 \<le> n \<Longrightarrow> 2 * n < 2 ^ 31 \<Longrightarrow> shl1 n = 2 * n"
proof -
  assume n: "0 \<le> n" "2 * n < 2 ^ 31"
  have "push_bit 1 (word_of_int n :: 32 word) = word_of_int (2 * n)"
    by (simp add: push_bit_eq_mult)
  then have "shl1 n = sint (word_of_int (2 * n) :: 32 word)"
    by (simp only: shl1_def)
  also have "\<dots> = signed_take_bit 31 (2 * n)"
    by (subst sint_sbintrunc') simp
  also have "\<dots> = 2 * n"
    using n by (intro signed_take_bit_int_eq_self) simp_all
  finally show ?thesis .
qed

lemma shl1_less: "shl1 n < 2 ^ 31"
  using sint_lt [of "push_bit 1 (word_of_int n :: 32 word)"] by (simp add: shl1_def)

lemma loop_doubles:
  "0 < nb \<Longrightarrow> t \<le> nb * 2 ^ k \<Longrightarrow> \<forall>j<k. nb * 2 ^ j < t \<Longrightarrow> nb * 2 ^ k < 2 ^ 31 \<Longrightarrow>
   ResizeToFitNextPow2_loop t nb = Some (nb * 2 ^ k)"
proof (induction k arbitrary: nb)
  case 0
  then show ?case by (simp add: ResizeToFitNextPow2_loop.simps)
next
  case (Suc k)
  from Suc.prems(3) have lt: "nb < t" by (auto dest: spec [of _ 0])
  have small: "2 * nb < 2 ^ 31"
  proof -
    have "2 * nb \<le> nb * 2 ^ Suc k" using Suc.prems(1) by simp
    then show ?thesis using Suc.prems(4) by linarith
  qed
  have sh: "shl1 nb = 2 * nb"
    using Suc.prems(1) small by (simp add: shl1_double)
  have step: "\<forall>j<k. (2 * nb) * 2 ^ j < t"
  proof (intro allI impI)
    fix j assume "j < k"
    then have "nb * 2 ^ Suc j < t" using Suc.prems(3) by (auto dest!: spec [of _ "Suc j"])
    then show "(2 * nb) * 2 ^ j < t" by (simp add: mult.assoc mult.left_commute)
  qed
  have "ResizeToFitNextPow2_loop t (2 * nb) = Some ((2 * nb) * 2 ^ k)"
    using Suc.prems step by (intro Suc.IH) (simp_all add: mult.assoc mult.left_commute)
  then show ?case
    using lt sh by (subst ResizeToFitNextPow2_loop.simps) (simp add: mult.assoc mult.left_commute)
qed

lemma loop_result_ge:
  assumes "ResizeToFitNextPow2_loop t nb = Some r"
  shows "t \<le> r"
  by (rule ResizeToFitNextPow2_loop.raw_induct [where P = "\<lambda>t nb r. t \<le> r", OF _ assms])
    (auto split: if_splits)

lemma loop_result_grows:
  "ResizeToFitNextPow2_loop t nb = Some r \<Longrightarrow> r = nb \<or> nb < r"
  by (subst (asm) ResizeToFitNextPow2_loop.simps) (auto split: if_splits dest: loop_result_ge)

lemma loop_forever_aux:
  assumes "ResizeToFitNextPow2_loop t nb = Some r"
  shows "\<not> (2 ^ 31 \<le> t \<and> nb < t)"
proof (rule ResizeToFitNextPow2_loop.raw_induct
    [where P = "\<lambda>t nb r. \<not> (2 ^ 31 \<le> t \<and> nb < t)", OF _ assms])
  fix loop :: "int \<Rightarrow> int \<Rightarrow> int option" and t nb r
  assume IH: "\<And>t nb r. loop t nb = Some r \<Longrightarrow> \<not> (2 ^ 31 \<le> t \<and> nb < t)"
    and eq: "(if nb < t then loop t (shl1 nb) else Some nb) = Some r"
  show "\<not> (2 ^ 31 \<le> t \<and> nb < t)"
  proof
    assume a: "2 ^ 31 \<le> t \<and> nb < t"
    with eq have "loop t (shl1 nb) = Some r" by simp
    from IH [OF this] a shl1_less [of nb] show False by simp
  qed
qed

lemma loop_forever: "2 ^ 31 \<le> t \<Longrightarrow> nb < t \<Longrightarrow> ResizeToFitNextPow2_loop t nb = None"
  using loop_forever_aux [of t nb] by (cases "ResizeToFitNextPow2_loop t nb") auto

subsection \<open>The three parts of Resize\<close>



lemmas gl_defs = issue_def createBuffer_def createTexture_def bindBuffer_def bindTexture_def
  bufferData_def bufferSubData_def texParameteri_def texImage2D_def

lemma calls_bindBuffer: "calls (bindBuffer target b gl) = calls gl @ [BindBuffer target b]"
  by (simp add: gl_defs Let_def)

lemma calls_bindTexture: "calls (bindTexture target t gl) = calls gl @ [BindTexture target t]"
  by (simp add: gl_defs Let_def)

lemma calls_bufferData:
  "calls (bufferData target bytes usage gl) = calls gl @ [BufferData target bytes usage]"
  by (simp add: gl_defs Let_def split: option.splits)

lemma calls_bufferSubData:
  "calls (bufferSubData target offset data gl) = calls gl @ [BufferSubData target offset data]"
  by (simp add: gl_defs Let_def split: option.splits)

lemma calls_texParameteri:
  "calls (texParameteri target pname param gl) = calls gl @ [TexParameteri target pname param]"
  by (simp add: gl_defs)

lemma calls_texImage2D:
  "calls (texImage2D target level internalformat width height border format type pixels gl) =
   calls gl @ [TexImage2D target level internalformat width height border format type pixels]"
  by (simp add: gl_defs Let_def split: option.splits typed_array.splits)

lemma calls_createBuffer: "calls (snd (createBuffer gl)) = calls gl @ [CreateBuffer (objects gl)]"
  by (simp add: gl_defs)

lemma calls_createTexture:
  "calls (snd (createTexture gl)) = calls gl @ [CreateTexture (objects gl)]"
  by (simp add: gl_defs)

lemmas calls_simps = calls_bindBuffer calls_bindTexture calls_bufferData calls_bufferSubData
  calls_texParameteri calls_texImage2D calls_createBuffer calls_createTexture

lemma float32_bytes_zero: "float32_bytes 0 = [0, 0, 0, 0]"
  by (simp add: float32_bytes_def)

lemma concat_replicate_zero:
  "concat (replicate n [0, 0, 0, 0 :: 8 word]) = replicate (4 * n) 0"
proof (induction n)
  case 0
  show ?case by simp
next
  case (Suc n)
  have "4 * Suc n = Suc (Suc (Suc (Suc (4 * n))))" by simp
  with Suc show ?case by (simp only: replicate.simps concat.simps append.simps)
qed

lemma ta_bytes_zero:
  "ta_bytes (Float32Array (replicate n 0)) = replicate (4 * n) 0"
  "ta_bytes (Uint8Array (replicate n 0)) = replicate n 0"
  by (simp_all add: float32_bytes_zero concat_replicate_zero)

lemmas alloc_defs = new_Float32Array_def new_Uint8Array_def allocates_def max_safe_integer_def

lemmas bt_defs = glDynamicBufferType_Buffer_def glDynamicBufferType_Texture_def

lemma Resize_cpuArray_Inr:
  assumes "Resize_cpuArray mb this n = Inr this'"
  shows "(elementType this = FLOAT \<or> elementType this = BYTE) \<and>
         allocates mb (element_bytes (elementType this)) (nbElements this * n) \<and>
         (\<exists>a. this' = this\<lparr>nbElementBytes := Some (element_bytes (elementType this)),
                            cpuArray := Some a\<rparr> \<and>
              a = (if elementType this = FLOAT
                   then Float32Array (replicate (nat (nbElements this * n)) 0)
                   else Uint8Array (replicate (nat (nbElements this * n)) 0)) \<and>
              ta_kind a = elementType this \<and> ta_all_zero a \<and>
              ta_length a = nat (nbElements this * n))"
  using assms
  by (cases "elementType this")
     (auto simp: Resize_cpuArray_def new_Float32Array_def new_Uint8Array_def assert_def Let_def
        list_all_length split: if_splits)

lemma Resize_cpuArray_Inl:
  assumes "Resize_cpuArray mb this n = Inl (e, this')"
  shows "cpuArray this' = cpuArray this \<and> nbEntries this' = nbEntries this \<and>
         dirty this' = dirty this \<and> buffer this' = buffer this \<and> texture this' = texture this \<and>
         elementType this' = elementType this \<and> nbElements this' = nbElements this \<and>
         bufferType this' = bufferType this"
  using assms
  by (cases "elementType this")
     (auto simp: Resize_cpuArray_def new_Float32Array_def new_Uint8Array_def assert_def Let_def
        split: if_splits)

lemma Resize_cpuArray_returns:
  assumes "elementType this = FLOAT \<or> elementType this = BYTE"
    and "allocates mb (element_bytes (elementType this)) (nbElements this * n)"
  shows "\<exists>this'. Resize_cpuArray mb this n = Inr this'"
  using assms
  by (auto simp: Resize_cpuArray_def new_Float32Array_def new_Uint8Array_def Let_def)

lemma Resize_cpuArray_throws:
  assumes "elementType this = FLOAT \<or> elementType this = BYTE"
    and "\<not> allocates mb (element_bytes (elementType this)) (nbElements this * n)"
  shows "Resize_cpuArray mb this n =
           Inl (RangeError, this\<lparr>nbElementBytes := Some (element_bytes (elementType this))\<rparr>)"
  using assms
  by (auto simp: Resize_cpuArray_def new_Float32Array_def new_Uint8Array_def Let_def)

lemma ta_set_Inr:
  assumes "ta_set new old = Inr a"
  shows "ta_length old \<le> ta_length new \<and> ta_length a = ta_length new \<and> ta_kind a = ta_kind new \<and>
         (ta_kind old = ta_kind new \<longrightarrow> ta_take (ta_length old) a = old)"
  using assms by (cases new; cases old) (auto split: if_splits)

lemma ta_set_returns:
  "ta_length old \<le> ta_length new \<Longrightarrow> \<exists>a. ta_set new old = Inr a"
  by (cases new; cases old) auto

lemma ta_set_Inl:
  "ta_set new old = Inl e \<Longrightarrow> ta_length new < ta_length old \<and> e = RangeError"
  by (cases new; cases old) (auto split: if_splits)

lemma ta_set_throws:
  "ta_length new < ta_length old \<Longrightarrow> ta_set new old = Inl RangeError"
  by (cases new; cases old) auto

lemma Resize_copy_None: "Resize_copy None this = Inr this"
  by (simp add: Resize_copy_def)

lemma Resize_copy_Some:
  "cpuArray this = Some new \<Longrightarrow>
   Resize_copy (Some old) this =
     (case ta_set new old of Inl e \<Rightarrow> Inl (e, this) | Inr a \<Rightarrow> Inr (this\<lparr>cpuArray := Some a\<rparr>))"
  by (simp add: Resize_copy_def)

lemma Resize_gpu_Buffer:
  "bufferType this = glDynamicBufferType_Buffer \<Longrightarrow>
   Resize_gpu (this, gl) =
     Inr (this\<lparr>buffer := Some (objects gl)\<rparr>,
          bufferData ARRAY_BUFFER (nbBytes this) DYNAMIC_DRAW
            (bindBuffer ARRAY_BUFFER (Some (objects gl)) (snd (createBuffer gl))))"
  by (simp add: Resize_gpu_def createBuffer_def)

lemma Resize_gpu_Texture:
  "bufferType this = glDynamicBufferType_Texture \<Longrightarrow> elementType this = BYTE \<Longrightarrow>
   nbElements this = 1 \<Longrightarrow>
   Resize_gpu (this, gl) =
     Inr (this\<lparr>texture := Some (objects gl)\<rparr>,
          texImage2D TEXTURE_2D 0 ALPHA (nbEntries this) 1 0 ALPHA UNSIGNED_BYTE (cpuArray this)
            (texParameteri TEXTURE_2D TEXTURE_WRAP_T CLAMP_TO_EDGE
              (texParameteri TEXTURE_2D TEXTURE_WRAP_S CLAMP_TO_EDGE
                (texParameteri TEXTURE_2D TEXTURE_MAG_FILTER NEAREST
                  (texParameteri TEXTURE_2D TEXTURE_MIN_FILTER NEAREST
                    (bindTexture TEXTURE_2D (Some (objects gl)) (snd (createTexture gl))))))))"
  by (simp add: Resize_gpu_def createTexture_def assert_def bt_defs)

lemma Resize_gpu_Inr:
  assumes "Resize_gpu (this, gl) = Inr (this', gl')"
  shows "bufferType this = glDynamicBufferType_Buffer \<or>
         bufferType this = glDynamicBufferType_Texture \<and> elementType this = BYTE \<and>
           nbElements this = 1"
  using assms
  by (auto simp: Resize_gpu_def assert_def Let_def split: if_splits prod.splits)

lemma Resize_gpu_frame:
  assumes "outcome_state (Resize_gpu (this, gl)) = (this', gl')"
  shows "cpuArray this' = cpuArray this \<and> nbEntries this' = nbEntries this \<and>
         dirty this' = dirty this \<and> elementType this' = elementType this \<and>
         nbElements this' = nbElements this \<and> bufferType this' = bufferType this \<and>
         nbBytes this' = nbBytes this"
  using assms
  by (auto simp: Resize_gpu_def assert_def Let_def split: if_splits prod.splits)

lemma Resize_Inr:
  assumes "Resize mb n (this, gl) = Inr s'"
  shows "\<exists>this1 this2.
           Resize_cpuArray mb (this\<lparr>nbEntries := Some n\<rparr>) n = Inr this1 \<and>
           Resize_copy (cpuArray this)
             (this1\<lparr>nbBytes := map_option (\<lambda>bytes. bytes * nbElements this1 * n)
                                  (nbElementBytes this1)\<rparr>) = Inr this2 \<and>
           Resize_gpu (this2, gl) = Inr s'"
  using assms by (auto simp: Resize_def Let_def split: sum.splits prod.splits)


lemma Resize_gpu_returns:
  assumes "bufferType this = glDynamicBufferType_Buffer \<or>
           bufferType this = glDynamicBufferType_Texture \<and> elementType this = BYTE \<and>
             nbElements this = 1"
  shows "\<exists>this' gl'. Resize_gpu (this, gl) = Inr (this', gl')"
  using assms by (auto simp: Resize_gpu_Buffer Resize_gpu_Texture)

lemma Resize_gpu_uploads:
  assumes "Resize_gpu (this, gl) = Inr (this', gl')"
  shows "uploads gl' =
           uploads gl @ filter is_upload
             (if bufferType this = glDynamicBufferType_Buffer then []
              else [TexImage2D TEXTURE_2D 0 ALPHA (nbEntries this) 1 0 ALPHA UNSIGNED_BYTE
                      (cpuArray this)])"
  using Resize_gpu_Inr [OF assms] assms
  by (auto simp: Resize_gpu_Buffer Resize_gpu_Texture uploads_def bt_defs calls_simps)

subsection \<open>Resize as a whole\<close>

lemma constructedD:
  assumes "constructed mb this"
  shows "elementType this = FLOAT \<or> elementType this = BYTE"
    and "bufferType this = glDynamicBufferType_Buffer \<or>
         bufferType this = glDynamicBufferType_Texture \<and> elementType this = BYTE \<and>
           nbElements this = 1"
    and "\<exists>c a. nbEntries this = Some c \<and> cpuArray this = Some a \<and>
           ta_kind a = elementType this \<and> int (ta_length a) = nbElements this * c \<and>
           allocates mb (element_bytes (elementType this)) (nbElements this * c)"
  using assms
  by (auto simp: constructed_def mirror_length_ok_def split: option.splits)

lemma Resize_grow:
  assumes con: "constructed mb this"
    and c: "nbEntries this = Some c" "0 < c" "c < n"
    and old: "cpuArray this = Some old"
    and alloc: "allocates mb (element_bytes (elementType this)) (nbElements this * n)"
  shows "\<exists>this' gl' new. Resize mb n (this, gl) = Inr (this', gl') \<and>
           cpuArray this' = Some new \<and> ta_take (ta_length old) new = old \<and>
           int (ta_length new) = nbElements this * n \<and> ta_kind new = elementType this \<and>
           nbEntries this' = Some n \<and> elementType this' = elementType this \<and>
           nbElements this' = nbElements this \<and> bufferType this' = bufferType this \<and>
           dirty this' = dirty this \<and> constructed mb this'"
proof -
  let ?obj = "this\<lparr>nbEntries := Some n\<rparr>"
  from constructedD [OF con] c old
  have et: "elementType this = FLOAT \<or> elementType this = BYTE"
    and bt: "bufferType this = glDynamicBufferType_Buffer \<or>
         bufferType this = glDynamicBufferType_Texture \<and> elementType this = BYTE \<and>
           nbElements this = 1"
    and kind: "ta_kind old = elementType this"
    and len: "int (ta_length old) = nbElements this * c"
    by auto
  have "0 \<le> nbElements this * c" using len by linarith
  with c(2) have ne: "0 \<le> nbElements this" by (simp add: zero_le_mult_iff)
  have le: "nbElements this * c \<le> nbElements this * n"
    using ne c(3) by (simp add: mult_left_mono)
  have nn: "0 \<le> nbElements this * n" using ne c(2,3) by simp
  obtain this1 where r1: "Resize_cpuArray mb ?obj n = Inr this1"
    using Resize_cpuArray_returns [of ?obj mb n] et alloc by auto
  from Resize_cpuArray_Inr [OF r1] obtain a
    where this1: "this1 = ?obj\<lparr>nbElementBytes := Some (element_bytes (elementType this)),
                               cpuArray := Some a\<rparr>"
      and a: "ta_kind a = elementType this" "ta_length a = nat (nbElements this * n)"
    by auto
  define this1' where "this1' = this1\<lparr>nbBytes :=
     map_option (\<lambda>bytes. bytes * nbElements this1 * n) (nbElementBytes this1)\<rparr>"
  have a1: "cpuArray this1' = Some a" by (simp add: this1'_def this1)
  have "ta_length old \<le> ta_length a" using a(2) len le nn by linarith
  then obtain new where set: "ta_set a old = Inr new" using ta_set_returns by blast
  from ta_set_Inr [OF set] kind a
  have new: "ta_take (ta_length old) new = old" "ta_length new = ta_length a"
    "ta_kind new = elementType this" by auto
  define this2 where "this2 = this1'\<lparr>cpuArray := Some new\<rparr>"
  have r2: "Resize_copy (Some old) this1' = Inr this2"
    by (simp add: Resize_copy_Some [OF a1] set this2_def)
  have f2: "bufferType this2 = bufferType this" "elementType this2 = elementType this"
    "nbElements this2 = nbElements this" "nbEntries this2 = Some n" "dirty this2 = dirty this"
    "cpuArray this2 = Some new"
    by (simp_all add: this2_def this1'_def this1)
  obtain this' gl' where r3: "Resize_gpu (this2, gl) = Inr (this', gl')"
    using Resize_gpu_returns [of this2 gl] bt f2 by auto
  then have "outcome_state (Resize_gpu (this2, gl)) = (this', gl')" by simp
  from Resize_gpu_frame [OF this] f2
  have f3: "bufferType this' = bufferType this" "elementType this' = elementType this"
    "nbElements this' = nbElements this" "nbEntries this' = Some n" "dirty this' = dirty this"
    "cpuArray this' = Some new"
    by simp_all
  have len': "int (ta_length new) = nbElements this * n" using new(2) a(2) nn by simp
  have "constructed mb this'"
    using f3 et bt new(3) len' alloc by (simp add: constructed_def mirror_length_ok_def)
  moreover have "Resize mb n (this, gl) = Inr (this', gl')"
    using r1 r2 r3 old by (simp add: Resize_def Let_def this1'_def)
  ultimately show ?thesis using f3 new len' by simp
qed

lemma Resize_frame:
  assumes "outcome_state (Resize mb n (this, gl)) = (this', gl')"
  shows "nbEntries this' = Some n \<and> dirty this' = dirty this \<and>
         elementType this' = elementType this \<and> nbElements this' = nbElements this \<and>
         bufferType this' = bufferType this"
proof (cases "Resize_cpuArray mb (this\<lparr>nbEntries := Some n\<rparr>) n")
  case (Inl p)
  obtain e this1 where p: "p = (e, this1)" by (cases p)
  from Resize_cpuArray_Inl [OF Inl [unfolded p]] assms Inl p
  show ?thesis by (auto simp: Resize_def Let_def)
next
  case (Inr this1)
  from Resize_cpuArray_Inr [OF Inr] obtain a k
    where this1: "this1 = this\<lparr>nbEntries := Some n, nbElementBytes := Some k, cpuArray := Some a\<rparr>"
    by fastforce
  define this1' where "this1' = this1\<lparr>nbBytes :=
     map_option (\<lambda>bytes. bytes * nbElements this1 * n) (nbElementBytes this1)\<rparr>"
  show ?thesis
  proof (cases "Resize_copy (cpuArray this) this1'")
    case (Inl p)
    obtain e this2 where p: "p = (e, this2)" by (cases p)
    from Inl p have "this2 = this1'"
      by (auto simp: Resize_copy_def split: option.splits sum.splits)
    with assms Inr Inl p show ?thesis
      by (auto simp: Resize_def Let_def this1'_def this1)
  next
    case (Inr this2)
    then have f2: "nbEntries this2 = Some n" "dirty this2 = dirty this"
      "elementType this2 = elementType this" "nbElements this2 = nbElements this"
      "bufferType this2 = bufferType this"
      by (auto simp: Resize_copy_def this1'_def this1 split: option.splits sum.splits)
    from assms \<open>Resize_cpuArray mb (this\<lparr>nbEntries := Some n\<rparr>) n = Inr this1\<close> Inr
    have "outcome_state (Resize_gpu (this2, gl)) = (this', gl')"
      by (simp add: Resize_def Let_def this1'_def)
    from Resize_gpu_frame [OF this] f2 show ?thesis by simp
  qed
qed

subsection \<open>The example objects\<close>

lemmas ctor_defs = constructor_def Resize_def Resize_cpuArray_def Resize_copy_def Resize_gpu_def
  alloc_defs gl_defs assert_def bt_defs Let_def

lemma constructor_float_example:
  "constructor max_bytes0 FLOAT 3 4 (Some glDynamicBufferType_Buffer) gl0 = Inr float_example"
  by (simp add: ctor_defs gl0_def float_example_def max_bytes0_def)

lemma constructor_byte_example: "constructor max_bytes0 BYTE 1 1 None gl0 = Inr byte_example"
  by (simp add: ctor_defs gl0_def byte_example_def max_bytes0_def)

lemma constructor_texture_example:
  "constructor max_bytes0 BYTE 1 1 (Some glDynamicBufferType_Texture) gl0 = Inr texture_example"
  by (simp add: ctor_defs gl0_def texture_example_def max_bytes0_def)

lemma constructed_float_example: "constructed max_bytes0 (fst float_example)"
  by (simp add: constructed_def mirror_length_ok_def float_example_def bt_defs
      allocates_def max_safe_integer_def max_bytes0_def)

lemma constructed_byte_example: "constructed max_bytes0 (fst byte_example)"
  by (simp add: constructed_def mirror_length_ok_def byte_example_def bt_defs
      allocates_def max_safe_integer_def max_bytes0_def)

lemma constructed_texture_example: "constructed max_bytes0 (fst texture_example)"
  by (simp add: constructed_def mirror_length_ok_def texture_example_def bt_defs
      allocates_def max_safe_integer_def max_bytes0_def)

subsection \<open>Further lemmas on Resize, the constructor and the calls\<close>

lemma Resize_copy_Inr:
  assumes "Resize_copy old this1 = Inr this2" and "cpuArray this1 = Some a"
  shows "\<exists>a'. this2 = this1\<lparr>cpuArray := Some a'\<rparr>"
proof (cases old)
  case None
  with assms have "this2 = this1\<lparr>cpuArray := Some a\<rparr>" by (simp add: Resize_copy_def)
  then show ?thesis ..
next
  case (Some x)
  with assms show ?thesis by (auto simp: Resize_copy_def split: sum.splits)
qed

lemma Resize_uploads:
  assumes "Resize mb n (this, gl) = Inr (this', gl')"
  shows "cpuArray this' \<noteq> None \<and>
         uploads gl' =
           uploads gl @
             (if bufferType this = glDynamicBufferType_Buffer then []
              else [TexImage2D TEXTURE_2D 0 ALPHA (Some n) 1 0 ALPHA UNSIGNED_BYTE
                      (cpuArray this')])"
proof -
  from Resize_Inr [OF assms] obtain this1 this2
    where r1: "Resize_cpuArray mb (this\<lparr>nbEntries := Some n\<rparr>) n = Inr this1"
      and r2: "Resize_copy (cpuArray this)
             (this1\<lparr>nbBytes := map_option (\<lambda>bytes. bytes * nbElements this1 * n)
                                  (nbElementBytes this1)\<rparr>) = Inr this2"
      and r3: "Resize_gpu (this2, gl) = Inr (this', gl')"
    by blast
  from Resize_cpuArray_Inr [OF r1] obtain a k
    where this1: "this1 = this\<lparr>nbEntries := Some n, nbElementBytes := Some k, cpuArray := Some a\<rparr>"
    by fastforce
  from Resize_copy_Inr [OF r2] this1 obtain a'
    where f2: "cpuArray this2 = Some a'" "nbEntries this2 = Some n"
      "bufferType this2 = bufferType this"
    by auto
  from r3 have "outcome_state (Resize_gpu (this2, gl)) = (this', gl')" by simp
  from Resize_gpu_frame [OF this] f2 have f3: "cpuArray this' = Some a'" by simp
  from Resize_gpu_uploads [OF r3] f2 f3 show ?thesis by simp
qed

lemma constructor_frame:
  assumes "outcome_state (constructor mb element_type nb_elements nb_entries buffer_type gl) =
           (this, gl')"
  shows "nbEntries this = Some nb_entries \<and> dirty this = False \<and>
         elementType this = element_type \<and> nbElements this = nb_elements"
  using Resize_frame [OF assms [unfolded constructor_def]] by simp

lemma Resize_fresh:
  assumes "Resize mb nb_entries (this, gl) = Inr (this', gl')" and "cpuArray this = None"
  shows "allocates mb (element_bytes (elementType this)) (nbElements this * nb_entries) \<and>
         (elementType this = FLOAT \<or> elementType this = BYTE) \<and>
         cpuArray this' =
           Some (if elementType this = FLOAT
                 then Float32Array (replicate (nat (nbElements this * nb_entries)) 0)
                 else Uint8Array (replicate (nat (nbElements this * nb_entries)) 0)) \<and>
         nbBytes this' =
           Some (element_bytes (elementType this) * nbElements this * nb_entries) \<and>
         (bufferType this = glDynamicBufferType_Buffer \<or>
          bufferType this = glDynamicBufferType_Texture \<and> elementType this = BYTE \<and>
            nbElements this = 1) \<and>
         Resize_gpu
           (this\<lparr>nbEntries := Some nb_entries,
                  nbElementBytes := Some (element_bytes (elementType this)),
                  cpuArray := cpuArray this',
                  nbBytes := Some (element_bytes (elementType this) * nbElements this *
                                   nb_entries)\<rparr>, gl) = Inr (this', gl')"
proof -
  from Resize_Inr [OF assms(1)] obtain this1 this2
    where r1: "Resize_cpuArray mb (this\<lparr>nbEntries := Some nb_entries\<rparr>) nb_entries = Inr this1"
      and r2: "Resize_copy (cpuArray this)
             (this1\<lparr>nbBytes := map_option (\<lambda>bytes. bytes * nbElements this1 * nb_entries)
                                  (nbElementBytes this1)\<rparr>) = Inr this2"
      and r3: "Resize_gpu (this2, gl) = Inr (this', gl')"
    by blast
  from Resize_cpuArray_Inr [OF r1] obtain a
    where et: "elementType this = FLOAT \<or> elementType this = BYTE"
      and al: "allocates mb (element_bytes (elementType this)) (nbElements this * nb_entries)"
      and this1: "this1 = this\<lparr>nbEntries := Some nb_entries,
                              nbElementBytes := Some (element_bytes (elementType this)),
                              cpuArray := Some a\<rparr>"
      and a: "a = (if elementType this = FLOAT
                   then Float32Array (replicate (nat (nbElements this * nb_entries)) 0)
                   else Uint8Array (replicate (nat (nbElements this * nb_entries)) 0))"
    by auto
  from r2 this1 assms(2)
  have this2: "this2 = this1\<lparr>nbBytes :=
      Some (element_bytes (elementType this) * nbElements this * nb_entries)\<rparr>"
    by (simp add: Resize_copy_None)
  from r3 have "outcome_state (Resize_gpu (this2, gl)) = (this', gl')" by simp
  from Resize_gpu_frame [OF this] this2 this1
  have f: "cpuArray this' = Some a"
    "nbBytes this' = Some (element_bytes (elementType this) * nbElements this * nb_entries)"
    by simp_all
  from r3 this2 this1 f have "Resize_gpu
           (this\<lparr>nbEntries := Some nb_entries,
                  nbElementBytes := Some (element_bytes (elementType this)),
                  cpuArray := cpuArray this',
                  nbBytes := Some (element_bytes (elementType this) * nbElements this *
                                   nb_entries)\<rparr>, gl) = Inr (this', gl')"
    by simp
  moreover from Resize_gpu_Inr [OF r3] this2 this1
  have "bufferType this = glDynamicBufferType_Buffer \<or>
          bufferType this = glDynamicBufferType_Texture \<and> elementType this = BYTE \<and>
            nbElements this = 1"
    by simp
  ultimately show ?thesis using et al f a by simp
qed


lemma UploadData_object: "fst (UploadData (this, gl)) = this"
  by (simp add: UploadData_def Let_def)

lemma UploadDirtyData_object:
  "fst (UploadDirtyData (this, gl)) = (if dirty this then this\<lparr>dirty := False\<rparr> else this)"
  by (simp add: UploadDirtyData_def UploadData_def Let_def)

lemma BindAsInstanceAttribute_object:
  "fst (outcome_state (BindAsInstanceAttribute program attrib_name (this, gl))) = this"
  by (simp add: BindAsInstanceAttribute_def getAttribLocation_def assert_def Let_def
      split: prod.splits)

lemma ResizeToFitNextPow2_cases:
  assumes "ResizeToFitNextPow2 mb t (this, gl) = Some r"
  shows "r = Inr (this, gl) \<or>
         (\<exists>c n. nbEntries this = Some c \<and> c < n \<and> t \<le> n \<and> r = Resize mb n (this, gl))"
  using assms
  by (auto simp: ResizeToFitNextPow2_def split: option.splits if_splits dest: loop_result_ge)





lemma call_method_capacity:
  assumes "nbEntries this = Some c" and "call_method mb m (this, gl) = Some r"
  shows "\<exists>c'. nbEntries (fst (outcome_state r)) = Some c' \<and> c \<le> c'"
proof (cases m)
  case (CallResizeToFitNextPow2 t)
  with assms(2) have "ResizeToFitNextPow2 mb t (this, gl) = Some r" by simp
  from ResizeToFitNextPow2_cases [OF this] show ?thesis
  proof
    assume "r = Inr (this, gl)"
    with assms show ?thesis by simp
  next
    assume "\<exists>c n. nbEntries this = Some c \<and> c < n \<and> t \<le> n \<and> r = Resize mb n (this, gl)"
    with assms(1) obtain n where n: "c < n" and r: "r = Resize mb n (this, gl)"
      by auto
    obtain this' gl' where o: "outcome_state (Resize mb n (this, gl)) = (this', gl')"
      by (cases "outcome_state (Resize mb n (this, gl))")
    from Resize_frame [OF o] o n r show ?thesis by simp
  qed
next
  case CallUploadData
  with assms show ?thesis by (auto simp: UploadData_object)
next
  case CallUploadDirtyData
  with assms show ?thesis by (auto simp: UploadDirtyData_object)
next
  case (CallBindAsInstanceAttribute program attrib_name)
  with assms show ?thesis by (auto simp: BindAsInstanceAttribute_object)
qed

lemma run_capacity:
  "nbEntries (fst s) = Some c \<Longrightarrow> run mb cs s = Some s' \<Longrightarrow>
   \<exists>c'. nbEntries (fst s') = Some c' \<and> c \<le> c'"
proof (induction cs arbitrary: s c)
  case Nil
  then show ?case by simp
next
  case (Cons m cs)
  from Cons.prems(2) obtain r where r: "call_method mb m s = Some r"
    and rest: "run mb cs (outcome_state r) = Some s'"
    by (auto split: option.splits)
  from call_method_capacity [of "fst s" c mb m "snd s" r] Cons.prems(1) r
  obtain c1 where c1: "nbEntries (fst (outcome_state r)) = Some c1" "c \<le> c1"
    by auto
  from Cons.IH [OF c1(1) rest] c1(2) show ?case by force
qed

subsection \<open>Allocation and the example objects, continued\<close>

lemma element_bytes_nonneg: "0 \<le> element_bytes t"
  by (cases t) simp_all

lemma allocates_mono:
  assumes "allocates mb eb len" and "0 \<le> len'" and "len' \<le> len" and "0 \<le> eb"
  shows "allocates mb eb len'"
proof -
  from assms(3,4) have "eb * len' \<le> eb * len" by (rule mult_left_mono)
  with assms(1,2,3) show ?thesis by (simp add: allocates_def)
qed

lemma ResizeToFitNextPow2_float_example:
  "ResizeToFitNextPow2 max_bytes0 10 float_example = Some (Resize max_bytes0 16 float_example)"
proof -
  have "\<forall>j<2. (4::int) * 2 ^ j < 10"
    by (auto simp: less_Suc_eq numeral_2_eq_2)
  with loop_doubles [of 4 10 2] have "ResizeToFitNextPow2_loop 10 4 = Some 16"
    by simp
  then show ?thesis
    by (simp add: ResizeToFitNextPow2_def float_example_def)
qed




section \<open>The claims\<close>

text \<open>
  C1, as amended. A resize that returns leaves the dirty flag as it is. With the buffer
  type \<open>Buffer\<close> it issues no upload: the new GPU buffer is only allocated. With the
  buffer type \<open>Texture\<close> it issues one upload, the \<open>texImage2D\<close> that creates the new
  texture from the new mirror. A growth resize of an object that the constructor has
  returned, with a positive capacity, returns when the engine allocates the new mirror.
  So it is for a \<open>ResizeToFitNextPow2\<close> that returns: the dirty flag is as before; with
  the buffer type \<open>Buffer\<close> no upload is issued; with the buffer type \<open>Texture\<close> the one
  upload of the new mirror is issued when the capacity has changed, and none otherwise.
  \<open>ResizeToFitNextPow2\<close> returns, with the doubled capacity, when that capacity is below
  \<open>2 ^ 31\<close> and the engine allocates the new mirror.
\<close>

theorem Resize_dirty_and_uploads:
  "(\<forall>this' gl'. Resize mb n (this, gl) = Inr (this', gl') \<longrightarrow>
      dirty this' = dirty this \<and> cpuArray this' \<noteq> None \<and>
      (bufferType this = glDynamicBufferType_Buffer \<longrightarrow> uploads gl' = uploads gl) \<and>
      (bufferType this = glDynamicBufferType_Texture \<longrightarrow>
         uploads gl' =
           uploads gl @ [TexImage2D TEXTURE_2D 0 ALPHA (Some n) 1 0 ALPHA UNSIGNED_BYTE
                           (cpuArray this')])) \<and>
   (constructed mb this \<and> positive_capacity this \<and> nbEntries this = Some c \<and> c < n \<and>
    allocates mb (element_bytes (elementType this)) (nbElements this * n) \<longrightarrow>
      (\<exists>s'. Resize mb n (this, gl) = Inr s')) \<and>
   (\<forall>this' gl'. ResizeToFitNextPow2 mb target (this, gl) = Some (Inr (this', gl')) \<longrightarrow>
      dirty this' = dirty this \<and>
      (bufferType this = glDynamicBufferType_Buffer \<longrightarrow> uploads gl' = uploads gl) \<and>
      (bufferType this = glDynamicBufferType_Texture \<longrightarrow>
         uploads gl' =
           uploads gl @
             (if nbEntries this' = nbEntries this then []
              else [TexImage2D TEXTURE_2D 0 ALPHA (nbEntries this') 1 0 ALPHA UNSIGNED_BYTE
                      (cpuArray this')]))) \<and>
   (constructed mb this \<and> nbEntries this = Some c \<and> 0 < c \<and> c < target \<and>
    target \<le> c * 2 ^ k \<and> (\<forall>j<k. c * 2 ^ j < target) \<and> c * 2 ^ k < 2 ^ 31 \<and>
    allocates mb (element_bytes (elementType this)) (nbElements this * (c * 2 ^ k)) \<longrightarrow>
      (\<exists>this' gl'. ResizeToFitNextPow2 mb target (this, gl) = Some (Inr (this', gl')) \<and>
                   nbEntries this' = Some (c * 2 ^ k)))"
proof (intro conjI allI impI)
  fix this' gl'
  assume r: "Resize mb n (this, gl) = Inr (this', gl')"
  then have "outcome_state (Resize mb n (this, gl)) = (this', gl')" by simp
  from Resize_frame [OF this] show "dirty this' = dirty this" by simp
  from Resize_uploads [OF r] show "cpuArray this' \<noteq> None" by simp
  show "uploads gl' = uploads gl" if "bufferType this = glDynamicBufferType_Buffer"
    using Resize_uploads [OF r] that by simp
  show "uploads gl' =
           uploads gl @ [TexImage2D TEXTURE_2D 0 ALPHA (Some n) 1 0 ALPHA UNSIGNED_BYTE
                           (cpuArray this')]"
    if "bufferType this = glDynamicBufferType_Texture"
    using Resize_uploads [OF r] that by (simp add: bt_defs)
next
  assume a: "constructed mb this \<and> positive_capacity this \<and> nbEntries this = Some c \<and> c < n \<and>
    allocates mb (element_bytes (elementType this)) (nbElements this * n)"
  then have pos: "0 < c" by (auto simp: positive_capacity_def)
  from a constructedD(3) [of mb this] obtain old where "cpuArray this = Some old" by auto
  from Resize_grow [OF _ _ pos _ this, of mb n gl] a
  show "\<exists>s'. Resize mb n (this, gl) = Inr s'" by blast
next
  fix this' gl'
  assume r: "ResizeToFitNextPow2 mb target (this, gl) = Some (Inr (this', gl'))"
  from ResizeToFitNextPow2_cases [OF r]
  have "Inr (this', gl') = Inr (this, gl) \<or>
      (\<exists>c m. nbEntries this = Some c \<and> c < m \<and> Resize mb m (this, gl) = Inr (this', gl'))"
    by auto
  then have "dirty this' = dirty this \<and>
      (bufferType this = glDynamicBufferType_Buffer \<longrightarrow> uploads gl' = uploads gl) \<and>
      (bufferType this = glDynamicBufferType_Texture \<longrightarrow>
         uploads gl' =
           uploads gl @
             (if nbEntries this' = nbEntries this then []
              else [TexImage2D TEXTURE_2D 0 ALPHA (nbEntries this') 1 0 ALPHA UNSIGNED_BYTE
                      (cpuArray this')]))"
  proof
    assume "Inr (this', gl') = Inr (this, gl)"
    then show ?thesis by simp
  next
    assume "\<exists>c m. nbEntries this = Some c \<and> c < m \<and> Resize mb m (this, gl) = Inr (this', gl')"
    then obtain c m where c: "nbEntries this = Some c" "c < m"
      and m: "Resize mb m (this, gl) = Inr (this', gl')"
      by blast
    from m have "outcome_state (Resize mb m (this, gl)) = (this', gl')" by simp
    from Resize_frame [OF this] Resize_uploads [OF m] c show ?thesis
      by (simp add: bt_defs)
  qed
  then show "dirty this' = dirty this"
    and "bufferType this = glDynamicBufferType_Buffer \<Longrightarrow> uploads gl' = uploads gl"
    and "bufferType this = glDynamicBufferType_Texture \<Longrightarrow>
         uploads gl' =
           uploads gl @
             (if nbEntries this' = nbEntries this then []
              else [TexImage2D TEXTURE_2D 0 ALPHA (nbEntries this') 1 0 ALPHA UNSIGNED_BYTE
                      (cpuArray this')])"
    by simp_all
next
  assume a: "constructed mb this \<and> nbEntries this = Some c \<and> 0 < c \<and> c < target \<and>
    target \<le> c * 2 ^ k \<and> (\<forall>j<k. c * 2 ^ j < target) \<and> c * 2 ^ k < 2 ^ 31 \<and>
    allocates mb (element_bytes (elementType this)) (nbElements this * (c * 2 ^ k))"
  then have loop: "ResizeToFitNextPow2_loop target c = Some (c * 2 ^ k)"
    by (intro loop_doubles) auto
  from a have gt: "c < c * 2 ^ k" by linarith
  from a constructedD(3) [of mb this] obtain old where "cpuArray this = Some old" by auto
  from Resize_grow [OF _ _ _ gt this, of mb gl] a obtain this' gl'
    where "Resize mb (c * 2 ^ k) (this, gl) = Inr (this', gl')"
      and "nbEntries this' = Some (c * 2 ^ k)"
    by blast
  with loop gt a
  show "\<exists>this' gl'. ResizeToFitNextPow2 mb target (this, gl) = Some (Inr (this', gl')) \<and>
                   nbEntries this' = Some (c * 2 ^ k)"
    by (simp add: ResizeToFitNextPow2_def)
qed

theorem Resize_dirty_and_uploads_witness:
  "(\<exists>this' gl'. Resize max_bytes0 16 float_example = Inr (this', gl') \<and>
      ResizeToFitNextPow2 max_bytes0 10 float_example = Some (Inr (this', gl')) \<and>
      nbEntries this' = Some 16 \<and> dirty this' = False \<and> uploads gl' = []) \<and>
   (\<exists>this' gl'. Resize max_bytes0 2 texture_example = Inr (this', gl') \<and>
      ResizeToFitNextPow2 max_bytes0 2 texture_example = Some (Inr (this', gl')) \<and>
      dirty this' = False \<and>
      uploads gl' =
        uploads (snd texture_example) @
          [TexImage2D TEXTURE_2D 0 ALPHA (Some 2) 1 0 ALPHA UNSIGNED_BYTE (cpuArray this')])"
proof (rule conjI)
  have small: "\<forall>j<2. (4::int) * 2 ^ j < 10"
    by (auto simp: less_Suc_eq numeral_2_eq_2)
  have h: "constructed max_bytes0 (fst float_example) \<and>
      positive_capacity (fst float_example) \<and>
      nbEntries (fst float_example) = Some 4 \<and> (4::int) < 16 \<and>
      allocates max_bytes0 (element_bytes (elementType (fst float_example)))
        (nbElements (fst float_example) * 16)"
    using constructed_float_example
    by (simp add: positive_capacity_def float_example_def allocates_def max_safe_integer_def
        max_bytes0_def)
  have h4: "constructed max_bytes0 (fst float_example) \<and>
      nbEntries (fst float_example) = Some 4 \<and> (0::int) < 4 \<and> (4::int) < 10 \<and>
      (10::int) \<le> 4 * 2 ^ 2 \<and> (\<forall>j<2. (4::int) * 2 ^ j < 10) \<and> (4::int) * 2 ^ 2 < 2 ^ 31 \<and>
      allocates max_bytes0 (element_bytes (elementType (fst float_example)))
        (nbElements (fst float_example) * (4 * 2 ^ 2))"
    using constructed_float_example small
    by (simp add: float_example_def allocates_def max_safe_integer_def max_bytes0_def)
  have b: "bufferType (fst float_example) = glDynamicBufferType_Buffer"
    "dirty (fst float_example) = False" "uploads (snd float_example) = []"
    by (simp_all add: float_example_def bt_defs uploads_def)
  note T = Resize_dirty_and_uploads
    [of max_bytes0 16 "fst float_example" "snd float_example" 4 10 2]
  from T [THEN conjunct2, THEN conjunct1, rule_format, OF h]
  obtain this' gl' where r: "Resize max_bytes0 16 float_example = Inr (this', gl')"
    by auto
  from T [THEN conjunct2, THEN conjunct2, THEN conjunct2, rule_format, OF h4]
  obtain this'' gl''
    where r4: "ResizeToFitNextPow2 max_bytes0 10 float_example = Some (Inr (this'', gl''))"
      and n4: "nbEntries this'' = Some 16"
    by auto
  from r r4 ResizeToFitNextPow2_float_example have same: "this'' = this'" "gl'' = gl'"
    by simp_all
  from r have r': "Resize max_bytes0 16 (fst float_example, snd float_example) = Inr (this', gl')"
    by simp
  from T [THEN conjunct1, rule_format, OF r'] b
  have "dirty this' = False \<and> uploads gl' = []"
    by simp
  with r r4 n4 same
  show "\<exists>this' gl'. Resize max_bytes0 16 float_example = Inr (this', gl') \<and>
      ResizeToFitNextPow2 max_bytes0 10 float_example = Some (Inr (this', gl')) \<and>
      nbEntries this' = Some 16 \<and> dirty this' = False \<and> uploads gl' = []"
    by simp
next
  have h: "constructed max_bytes0 (fst texture_example) \<and>
      positive_capacity (fst texture_example) \<and>
      nbEntries (fst texture_example) = Some 1 \<and> (1::int) < 2 \<and>
      allocates max_bytes0 (element_bytes (elementType (fst texture_example)))
        (nbElements (fst texture_example) * 2)"
    using constructed_texture_example
    by (simp add: positive_capacity_def texture_example_def allocates_def max_safe_integer_def
        max_bytes0_def)
  have b: "bufferType (fst texture_example) = glDynamicBufferType_Texture"
    "dirty (fst texture_example) = False" "nbEntries (fst texture_example) = Some 1"
    by (simp_all add: texture_example_def bt_defs)
  have loop: "ResizeToFitNextPow2_loop 2 1 = Some 2"
    using loop_doubles [of 1 2 1] by simp
  have rt: "ResizeToFitNextPow2 max_bytes0 2 texture_example =
      Some (Resize max_bytes0 2 texture_example)"
    using loop by (simp add: ResizeToFitNextPow2_def texture_example_def)
  note T = Resize_dirty_and_uploads
    [of max_bytes0 2 "fst texture_example" "snd texture_example" 1 2 1]
  from T [THEN conjunct2, THEN conjunct1, rule_format, OF h]
  obtain this' gl' where r: "Resize max_bytes0 2 texture_example = Inr (this', gl')"
    by auto
  then have "outcome_state (Resize max_bytes0 2 (fst texture_example, snd texture_example)) =
      (this', gl')"
    by simp
  from Resize_frame [OF this] have n: "nbEntries this' = Some 2" by simp
  from r rt have r': "ResizeToFitNextPow2 max_bytes0 2
      (fst texture_example, snd texture_example) = Some (Inr (this', gl'))"
    by simp
  from T [THEN conjunct2, THEN conjunct2, THEN conjunct1, rule_format, OF r'] b n
  have "dirty this' = False \<and>
      uploads gl' =
        uploads (snd texture_example) @
          [TexImage2D TEXTURE_2D 0 ALPHA (Some 2) 1 0 ALPHA UNSIGNED_BYTE (cpuArray this')]"
    by simp
  with r r'
  show "\<exists>this' gl'. Resize max_bytes0 2 texture_example = Inr (this', gl') \<and>
      ResizeToFitNextPow2 max_bytes0 2 texture_example = Some (Inr (this', gl')) \<and>
      dirty this' = False \<and>
      uploads gl' =
        uploads (snd texture_example) @
          [TexImage2D TEXTURE_2D 0 ALPHA (Some 2) 1 0 ALPHA UNSIGNED_BYTE (cpuArray this')]"
    by simp
qed

text \<open>
  C1 as stated fails with a texture behind the object: after the mirror of a texture
  object of capacity 1 has been written to, \<open>Resize(2)\<close> uploads the new mirror, with
  the written entry in it, to the new texture.
\<close>

theorem Resize_texture_uploads:
  "uploads (snd (outcome_state (Resize max_bytes0 2
      ((fst texture_example)\<lparr>cpuArray := Some (Uint8Array [7]), dirty := True\<rparr>,
       snd texture_example)))) =
   uploads (snd texture_example) @
     [TexImage2D TEXTURE_2D 0 ALPHA (Some 2) 1 0 ALPHA UNSIGNED_BYTE
        (Some (Uint8Array [7, 0]))]"
  by (simp add: Resize_def Resize_cpuArray_def Resize_copy_def Resize_gpu_def
      alloc_defs gl_defs assert_def bt_defs Let_def max_bytes0_def
      texture_example_def uploads_def numeral_2_eq_2)

text \<open>
  C2, as amended. A constructor call with a supported element type, a mirror that the
  engine allocates and a buffer type that is omitted, \<open>Buffer\<close>, or \<open>Texture\<close> with byte
  elements of arity 1, returns an object with a zero-filled mirror of length
  \<open>nb_elements * nb_entries\<close> and \<open>dirty = false\<close>, and the GPU resource of the object
  holds the bytes of the mirror: GPU and CPU contents start equal. With the buffer type
  \<open>Texture\<close> the construction issues one upload, of the zero-filled mirror. Otherwise it
  issues no upload: its calls are \<open>createBuffer\<close>, \<open>bindBuffer\<close> and the \<open>bufferData\<close>
  that allocates a zero-filled data store of the byte size of the mirror.
\<close>

theorem constructor_mirror_and_uploads:
  assumes "element_type = FLOAT \<or> element_type = BYTE"
    and "allocates mb (element_bytes element_type) (nb_elements * nb_entries)"
    and "buffer_type = None \<or> buffer_type = Some glDynamicBufferType_Buffer \<or>
         buffer_type = Some glDynamicBufferType_Texture \<and> element_type = BYTE \<and>
           nb_elements = 1"
  shows "\<exists>this gl' a.
           constructor mb element_type nb_elements nb_entries buffer_type gl = Inr (this, gl') \<and>
           cpuArray this = Some a \<and> ta_all_zero a \<and> ta_kind a = element_type \<and>
           int (ta_length a) = nb_elements * nb_entries \<and> dirty this = False \<and>
           gpu_contents (this, gl') = Some (ta_bytes a) \<and>
           (if buffer_type = Some glDynamicBufferType_Texture
            then uploads gl' =
                   uploads gl @ [TexImage2D TEXTURE_2D 0 ALPHA (Some nb_entries) 1 0 ALPHA
                                   UNSIGNED_BYTE (Some a)]
            else uploads gl' = uploads gl \<and>
                 calls gl' =
                   calls gl @ [CreateBuffer (objects gl),
                               BindBuffer ARRAY_BUFFER (Some (objects gl)),
                               BufferData ARRAY_BUFFER
                                 (Some (element_bytes element_type *
                                        nb_elements * nb_entries)) DYNAMIC_DRAW])"
proof -
  let ?len = "nb_elements * nb_entries"
  let ?bytes = "element_bytes element_type * nb_elements * nb_entries"
  define a where "a = (if element_type = FLOAT then Float32Array (replicate (nat ?len) 0)
                       else Uint8Array (replicate (nat ?len) 0))"
  define obj where "obj =
     \<lparr>elementType = element_type, nbElements = nb_elements,
      bufferType = (case buffer_type of None \<Rightarrow> glDynamicBufferType_Buffer | Some t \<Rightarrow> t),
      dirty = False, nbEntries = Some nb_entries, cpuArray = Some a,
      nbElementBytes = Some (element_bytes element_type), nbBytes = Some ?bytes,
      buffer = None, texture = None\<rparr>"
  from assms(2) have nn: "0 \<le> ?len" by (simp add: allocates_def)
  have a: "ta_all_zero a" "ta_kind a = element_type" "int (ta_length a) = ?len"
    using assms(1) nn by (auto simp: a_def list_all_length)
  have bytes: "ta_bytes a = replicate (nat ?bytes) 0"
  proof (cases "element_type = FLOAT")
    case True
    have "nat (4 * nb_elements * nb_entries) = 4 * nat ?len"
      using nn by (simp add: nat_mult_distrib mult.assoc)
    with True show ?thesis by (simp add: a_def float32_bytes_zero concat_replicate_zero)
  next
    case False
    with assms(1) show ?thesis by (simp add: a_def ta_bytes_zero)
  qed
  have pre: "constructor mb element_type nb_elements nb_entries buffer_type gl =
      Resize_gpu (obj, gl)"
    using assms(1,2)
    by (auto simp: constructor_def Resize_def Resize_cpuArray_def new_Float32Array_def
        new_Uint8Array_def Resize_copy_None Let_def obj_def a_def)
  show ?thesis
  proof (cases "buffer_type = Some glDynamicBufferType_Texture")
    case True
    with assms(3) have byte: "element_type = BYTE" "nb_elements = 1"
      by (simp_all add: bt_defs)
    from True byte have o: "bufferType obj = glDynamicBufferType_Texture"
      "elementType obj = BYTE" "nbElements obj = 1"
      by (simp_all add: obj_def)
    from byte a_def have xs: "a = Uint8Array (replicate (nat nb_entries) 0)" by simp
    from nn byte have w: "0 \<le> nb_entries" by simp
    let ?gl = "texImage2D TEXTURE_2D 0 ALPHA (Some nb_entries) 1 0 ALPHA UNSIGNED_BYTE (Some a)
            (texParameteri TEXTURE_2D TEXTURE_WRAP_T CLAMP_TO_EDGE
              (texParameteri TEXTURE_2D TEXTURE_WRAP_S CLAMP_TO_EDGE
                (texParameteri TEXTURE_2D TEXTURE_MAG_FILTER NEAREST
                  (texParameteri TEXTURE_2D TEXTURE_MIN_FILTER NEAREST
                    (bindTexture TEXTURE_2D (Some (objects gl)) (snd (createTexture gl)))))))"
    have r: "constructor mb element_type nb_elements nb_entries buffer_type gl =
        Inr (obj\<lparr>texture := Some (objects gl)\<rparr>, ?gl)"
      unfolding pre using Resize_gpu_Texture [OF o, of gl] by (simp add: obj_def)
    have u: "uploads ?gl =
        uploads gl @ [TexImage2D TEXTURE_2D 0 ALPHA (Some nb_entries) 1 0 ALPHA
                        UNSIGNED_BYTE (Some a)]"
      by (simp add: uploads_def calls_simps)
    have g: "gpu_contents (obj\<lparr>texture := Some (objects gl)\<rparr>, ?gl) = Some (ta_bytes a)"
      using w o by (simp add: gpu_contents_def gl_defs Let_def xs bt_defs)
    from r u g a True show ?thesis by (simp add: obj_def)
  next
    case False
    with assms(3) have o: "bufferType obj = glDynamicBufferType_Buffer"
      by (auto simp: obj_def)
    let ?gl = "bufferData ARRAY_BUFFER (Some ?bytes) DYNAMIC_DRAW
            (bindBuffer ARRAY_BUFFER (Some (objects gl)) (snd (createBuffer gl)))"
    have r: "constructor mb element_type nb_elements nb_entries buffer_type gl =
        Inr (obj\<lparr>buffer := Some (objects gl)\<rparr>, ?gl)"
      unfolding pre using Resize_gpu_Buffer [OF o, of gl] by (simp add: obj_def)
    have u: "uploads ?gl = uploads gl"
      and c: "calls ?gl = calls gl @ [CreateBuffer (objects gl),
                               BindBuffer ARRAY_BUFFER (Some (objects gl)),
                               BufferData ARRAY_BUFFER (Some ?bytes) DYNAMIC_DRAW]"
      by (simp_all add: uploads_def calls_simps)
    have nb: "0 \<le> ?bytes"
      using nn element_bytes_nonneg [of element_type] by (simp add: mult.assoc)
    have g: "gpu_contents (obj\<lparr>buffer := Some (objects gl)\<rparr>, ?gl) = Some (ta_bytes a)"
      using o nb by (simp add: gpu_contents_def gl_defs Let_def bytes)
    from r u c g a False show ?thesis by (simp add: obj_def)
  qed
qed

theorem constructor_mirror_and_uploads_witness:
  "\<exists>this gl' a.
     constructor max_bytes0 FLOAT 3 4 (Some glDynamicBufferType_Buffer) gl0 = Inr (this, gl') \<and>
     cpuArray this = Some a \<and> ta_all_zero a \<and> ta_length a = 12 \<and> dirty this = False \<and>
     gpu_contents (this, gl') = Some (ta_bytes a) \<and>
     uploads gl' = [] \<and>
     calls gl' = [CreateBuffer 0, BindBuffer ARRAY_BUFFER (Some 0),
                  BufferData ARRAY_BUFFER (Some 48) DYNAMIC_DRAW]"
proof -
  have h: "FLOAT = FLOAT \<or> FLOAT = BYTE" "allocates max_bytes0 (element_bytes FLOAT) (3 * 4)"
    "Some glDynamicBufferType_Buffer = None \<or>
     Some glDynamicBufferType_Buffer = Some glDynamicBufferType_Buffer \<or>
     Some glDynamicBufferType_Buffer = Some glDynamicBufferType_Texture \<and> FLOAT = BYTE \<and>
       (3::int) = 1"
    by (simp_all add: allocates_def max_safe_integer_def max_bytes0_def)
  from constructor_mirror_and_uploads [OF h, of gl0]
  show ?thesis by (fastforce simp: bt_defs gl0_def uploads_def)
qed

text \<open>
  C2 as stated fails for \<open>new glDynamicBuffer(gl.FLOAT, 3, 4,
  glDynamicBufferType.Buffer)\<close>: the mirror has 12 zero elements, and the construction
  issues no upload, where the claim has one.
\<close>

theorem constructor_buffer_no_upload:
  "constructor max_bytes0 FLOAT 3 4 (Some glDynamicBufferType_Buffer) gl0 = Inr float_example \<and>
   cpuArray (fst float_example) = Some (Float32Array (replicate 12 0)) \<and>
   length (uploads (snd float_example)) = 0"
  by (simp add: ctor_defs gl0_def float_example_def uploads_def max_bytes0_def)

text \<open>
  C3, as amended. On an object of capacity \<open>c > 0\<close>, let \<open>k\<close> be the smallest number with
  \<open>target \<le> c * 2 ^ k\<close>. When \<open>k = 0\<close> (the target is at most the capacity),
  \<open>ResizeToFitNextPow2(target)\<close> returns without a resize and leaves the object as it
  is. When \<open>k > 0\<close> and \<open>c * 2 ^ k\<close> is below \<open>2 ^ 31\<close>, it returns after the one call
  \<open>Resize(c * 2 ^ k)\<close>, and the capacity is then \<open>c * 2 ^ k\<close>.
\<close>

theorem ResizeToFitNextPow2_doubling:
  assumes "nbEntries this = Some c" and "0 < c"
    and "target \<le> c * 2 ^ k" and "\<forall>j<k. c * 2 ^ j < target"
    and "k = 0 \<or> c * 2 ^ k < 2 ^ 31"
  shows "\<exists>r. ResizeToFitNextPow2 mb target (this, gl) = Some r \<and>
             r = (if k = 0 then Inr (this, gl) else Resize mb (c * 2 ^ k) (this, gl)) \<and>
             nbEntries (fst (outcome_state r)) = Some (c * 2 ^ k)"
proof (cases "k = 0")
  case True
  with assms(3) have "ResizeToFitNextPow2_loop target c = Some c"
    by (simp add: ResizeToFitNextPow2_loop.simps)
  with True assms(1) show ?thesis by (simp add: ResizeToFitNextPow2_def)
next
  case False
  with assms have loop: "ResizeToFitNextPow2_loop target c = Some (c * 2 ^ k)"
    by (intro loop_doubles) auto
  from False have "(2::int) \<le> 2 ^ k"
    using self_le_power [of "2::int" k] by simp
  with assms(2) have "c * 2 \<le> c * 2 ^ k" by (intro mult_left_mono) auto
  with assms(2) have gt: "c < c * 2 ^ k" by linarith
  obtain this' gl' where o: "outcome_state (Resize mb (c * 2 ^ k) (this, gl)) = (this', gl')"
    by (cases "outcome_state (Resize mb (c * 2 ^ k) (this, gl))")
  from Resize_frame [OF o] o loop gt False assms(1) show ?thesis
    by (simp add: ResizeToFitNextPow2_def)
qed

theorem ResizeToFitNextPow2_doubling_witness:
  "\<exists>r. ResizeToFitNextPow2 max_bytes0 10 float_example = Some r \<and>
       r = Resize max_bytes0 16 float_example \<and> nbEntries (fst (outcome_state r)) = Some 16"
proof -
  have small: "\<forall>j<2. (4::int) * 2 ^ j < 10"
    by (auto simp: less_Suc_eq numeral_2_eq_2)
  have cap: "nbEntries (fst float_example) = Some 4"
    by (simp add: float_example_def)
  show ?thesis
    using ResizeToFitNextPow2_doubling
      [of "fst float_example" 4 10 2 max_bytes0 "snd float_example", OF cap _ _ small]
    by simp
qed

text \<open>
  C3 as stated fails where the doubled capacity does not fit 32 bits: on an object of
  capacity 1, \<open>ResizeToFitNextPow2(2147483648)\<close> does not return (the shift wraps to
  a negative number and then to 0, which stays below the target), where the claim has
  the capacity become \<open>1 * 2 ^ 31\<close>.
\<close>

theorem ResizeToFitNextPow2_wraps:
  "ResizeToFitNextPow2 max_bytes0 2147483648 byte_example = None"
proof -
  have "ResizeToFitNextPow2_loop 2147483648 1 = None"
    by (rule loop_forever) simp_all
  then show ?thesis
    by (simp add: ResizeToFitNextPow2_def byte_example_def)
qed

text \<open>
  C4. On an object that the constructor has returned, a resize from the capacity \<open>c1\<close> to
  a capacity \<open>c2 > c1\<close> that returns leaves a mirror whose first \<open>c1 * nbElements\<close>
  elements are the mirror of before; with \<open>c1 > 0\<close> the resize does return when the
  engine allocates the new mirror.
\<close>

theorem Resize_preserves_prefix:
  assumes "constructed mb this" and "nbEntries this = Some c1" and "c1 < c2"
    and "cpuArray this = Some old"
  shows "(0 < c1 \<and> allocates mb (element_bytes (elementType this)) (nbElements this * c2) \<longrightarrow>
            (\<exists>s'. Resize mb c2 (this, gl) = Inr s')) \<and>
         (\<forall>this' gl'. Resize mb c2 (this, gl) = Inr (this', gl') \<longrightarrow>
            (\<exists>new. cpuArray this' = Some new \<and>
                   ta_take (nat (c1 * nbElements this)) new = old))"
proof (intro conjI allI impI)
  assume a: "0 < c1 \<and> allocates mb (element_bytes (elementType this)) (nbElements this * c2)"
  then have pos: "0 < c1"
    and al: "allocates mb (element_bytes (elementType this)) (nbElements this * c2)"
    by simp_all
  from Resize_grow [OF assms(1,2) pos assms(3,4) al, of gl]
  show "\<exists>s'. Resize mb c2 (this, gl) = Inr s'" by blast
next
  fix this' gl'
  assume r: "Resize mb c2 (this, gl) = Inr (this', gl')"
  from constructedD(3) [OF assms(1)] assms(2,4)
  have kind: "ta_kind old = elementType this"
    and len: "int (ta_length old) = nbElements this * c1"
    by auto
  from Resize_Inr [OF r] obtain this1 this2
    where r1: "Resize_cpuArray mb (this\<lparr>nbEntries := Some c2\<rparr>) c2 = Inr this1"
      and r2: "Resize_copy (cpuArray this)
             (this1\<lparr>nbBytes := map_option (\<lambda>bytes. bytes * nbElements this1 * c2)
                                  (nbElementBytes this1)\<rparr>) = Inr this2"
      and r3: "Resize_gpu (this2, gl) = Inr (this', gl')"
    by blast
  from Resize_cpuArray_Inr [OF r1] obtain a k
    where this1: "this1 = this\<lparr>nbEntries := Some c2, nbElementBytes := Some k,
                               cpuArray := Some a\<rparr>"
      and a: "ta_kind a = elementType this"
    by fastforce
  from r2 this1 assms(4) obtain new
    where set: "ta_set a old = Inr new" and this2: "cpuArray this2 = Some new"
    by (auto simp: Resize_copy_def split: sum.splits)
  from ta_set_Inr [OF set] kind a have "ta_take (ta_length old) new = old" by simp
  moreover have "nat (c1 * nbElements this) = ta_length old"
    using len by (simp add: mult.commute)
  moreover from r3 have "outcome_state (Resize_gpu (this2, gl)) = (this', gl')" by simp
  from Resize_gpu_frame [OF this] this2 have "cpuArray this' = Some new" by simp
  ultimately show "\<exists>new. cpuArray this' = Some new \<and>
                   ta_take (nat (c1 * nbElements this)) new = old"
    by simp
qed

theorem Resize_preserves_prefix_witness:
  "\<exists>this' gl' new.
     Resize max_bytes0 16 ((fst float_example)\<lparr>cpuArray := Some (Float32Array
        [0, 0, 0, 0, 0, 1089470464, 0, 0, 0, 0, 0, 0])\<rparr>, snd float_example) =
       Inr (this', gl') \<and>
     cpuArray this' = Some new \<and>
     ta_take 12 new = Float32Array [0, 0, 0, 0, 0, 1089470464, 0, 0, 0, 0, 0, 0]"
proof -
  let ?written = "(fst float_example)\<lparr>cpuArray := Some (Float32Array
        [0, 0, 0, 0, 0, 1089470464, 0, 0, 0, 0, 0, 0])\<rparr>"
  have h: "constructed max_bytes0 ?written" "nbEntries ?written = Some 4" "(4::int) < 16"
    "cpuArray ?written =
       Some (Float32Array [0, 0, 0, 0, 0, 1089470464, 0, 0, 0, 0, 0, 0])"
    by (simp_all add: constructed_def mirror_length_ok_def float_example_def bt_defs
        allocates_def max_safe_integer_def max_bytes0_def)
  have al: "0 < (4::int) \<and>
      allocates max_bytes0 (element_bytes (elementType ?written)) (nbElements ?written * 16)"
    by (simp add: float_example_def allocates_def max_safe_integer_def max_bytes0_def)
  note T = Resize_preserves_prefix [OF h, of "snd float_example"]
  from T [THEN conjunct1, rule_format, OF al] obtain this' gl'
    where r: "Resize max_bytes0 16 (?written, snd float_example) = Inr (this', gl')"
    by auto
  from T [THEN conjunct2, rule_format, OF r] r show ?thesis
    by (auto simp: float_example_def)
qed

text \<open>
  C5. \<open>UploadDirtyData\<close> on a dirty object is \<open>UploadData\<close> followed by \<open>dirty = false\<close>;
  on a clean object it issues no call and changes nothing. A second call right after a
  first one changes nothing. On a dirty object that the constructor has returned, the
  two calls together issue exactly one upload.
\<close>

theorem UploadDirtyData_idempotent:
  "(dirty this \<longrightarrow>
      UploadDirtyData (this, gl) =
        ((fst (UploadData (this, gl)))\<lparr>dirty := False\<rparr>, snd (UploadData (this, gl)))) \<and>
   (\<not> dirty this \<longrightarrow> UploadDirtyData (this, gl) = (this, gl)) \<and>
   UploadDirtyData (UploadDirtyData (this, gl)) = UploadDirtyData (this, gl) \<and>
   (dirty this \<and> constructed mb this \<longrightarrow>
      length (uploads (snd (UploadData (this, gl)))) = Suc (length (uploads gl)) \<and>
      length (uploads (snd (UploadDirtyData (UploadDirtyData (this, gl))))) =
        Suc (length (uploads gl)))"
proof -
  have twice: "UploadDirtyData (UploadDirtyData (this, gl)) = UploadDirtyData (this, gl)"
    by (simp add: UploadDirtyData_def UploadData_def Let_def split: prod.splits)
  have one: "length (uploads (snd (UploadData (this, gl)))) = Suc (length (uploads gl))"
    if "constructed mb this"
  proof -
    from constructedD [OF that] obtain a where "cpuArray this = Some a" by auto
    with constructedD(2) [OF that] show ?thesis
      by (auto simp: UploadData_def uploads_def calls_simps bt_defs Let_def)
  qed
  show ?thesis
    unfolding twice using one
    by (auto simp: UploadDirtyData_def Let_def split: prod.splits)
qed

theorem UploadDirtyData_idempotent_witness:
  "length (uploads (snd (UploadDirtyData (UploadDirtyData
      ((fst float_example)\<lparr>dirty := True\<rparr>, snd float_example))))) = 1 \<and>
   UploadDirtyData float_example = float_example"
proof -
  have c: "constructed max_bytes0 ((fst float_example)\<lparr>dirty := True\<rparr>)"
    by (simp add: constructed_def mirror_length_ok_def float_example_def bt_defs
        allocates_def max_safe_integer_def max_bytes0_def)
  have u: "uploads (snd float_example) = []"
    by (simp add: float_example_def uploads_def)
  have d: "\<not> dirty (fst float_example)" by (simp add: float_example_def)
  have t: "dirty ((fst float_example)\<lparr>dirty := True\<rparr>)" by simp
  from UploadDirtyData_idempotent
    [of "(fst float_example)\<lparr>dirty := True\<rparr>" "snd float_example" max_bytes0] t c
  have "length (uploads (snd (UploadDirtyData (UploadDirtyData
      ((fst float_example)\<lparr>dirty := True\<rparr>, snd float_example))))) =
      Suc (length (uploads (snd float_example)))"
    by blast
  moreover from UploadDirtyData_idempotent
    [of "fst float_example" "snd float_example" max_bytes0] d
  have "UploadDirtyData (fst float_example, snd float_example) =
      (fst float_example, snd float_example)"
    by blast
  ultimately show ?thesis using u by simp
qed






text \<open>
  C8. The capacity of the object that the constructor returns is the initial capacity,
  and no sequence of calls of \<open>ResizeToFitNextPow2\<close>, \<open>UploadData\<close>, \<open>UploadDirtyData\<close>
  and \<open>BindAsInstanceAttribute\<close> makes it smaller: after more calls the capacity is at
  least what it was after fewer.
\<close>

theorem capacity_never_shrinks:
  assumes "constructor mb element_type nb_elements nb_entries buffer_type gl = Inr s"
    and "run mb cs s = Some s1"
    and "run mb cs' s1 = Some s2"
  shows "\<exists>c1 c2. nbEntries (fst s) = Some nb_entries \<and> nbEntries (fst s1) = Some c1 \<and>
           nbEntries (fst s2) = Some c2 \<and> nb_entries \<le> c1 \<and> c1 \<le> c2"
proof -
  obtain this gl' where s: "s = (this, gl')" by (cases s)
  with assms(1)
  have "outcome_state (constructor mb element_type nb_elements nb_entries buffer_type gl) =
      (this, gl')"
    by simp
  from constructor_frame [OF this] s have c0: "nbEntries (fst s) = Some nb_entries"
    by simp
  from run_capacity [OF c0 assms(2)] obtain c1
    where c1: "nbEntries (fst s1) = Some c1" "nb_entries \<le> c1" by blast
  from run_capacity [OF c1(1) assms(3)] obtain c2
    where c2: "nbEntries (fst s2) = Some c2" "c1 \<le> c2" by blast
  from c0 c1 c2 show ?thesis by simp
qed

theorem capacity_never_shrinks_witness:
  "\<exists>c1 c2. nbEntries (fst float_example) = Some 4 \<and>
     nbEntries (fst (outcome_state (Resize max_bytes0 16 float_example))) = Some c1 \<and>
     nbEntries (fst (UploadData (outcome_state (Resize max_bytes0 16 float_example)))) =
       Some c2 \<and>
     4 \<le> c1 \<and> c1 \<le> c2"
proof -
  have r1: "run max_bytes0 [CallResizeToFitNextPow2 10] float_example =
      Some (outcome_state (Resize max_bytes0 16 float_example))"
    by (simp add: ResizeToFitNextPow2_float_example)
  have r2: "run max_bytes0 [CallUploadData] (outcome_state (Resize max_bytes0 16 float_example)) =
      Some (UploadData (outcome_state (Resize max_bytes0 16 float_example)))"
    by simp
  show ?thesis
    by (rule capacity_never_shrinks [OF constructor_float_example r1 r2])
qed

text \<open>
  C9. On an object that the constructor has returned, with a positive arity and the
  capacity \<open>c\<close>, a call \<open>Resize(n)\<close> with \<open>0 < n < c\<close> throws the RangeError of the copy
  of the old array. The object is then left with the capacity \<open>n\<close> and a new zero-filled
  mirror of \<open>nbElements * n\<close> elements, shorter than the old one; its buffer and texture
  are the old ones, and no call has reached the context.
\<close>

theorem Resize_shrink_throws:
  assumes "constructed mb this" and "nbEntries this = Some c" and "0 < n" and "n < c"
    and "0 < nbElements this"
  shows "\<exists>this' a old.
           Resize mb n (this, gl) = Inl (RangeError, (this', gl)) \<and>
           nbEntries this' = Some n \<and> cpuArray this' = Some a \<and> ta_all_zero a \<and>
           int (ta_length a) = nbElements this * n \<and>
           cpuArray this = Some old \<and> ta_length a < ta_length old \<and>
           buffer this' = buffer this \<and> texture this' = texture this \<and>
           dirty this' = dirty this"
proof -
  let ?obj = "this\<lparr>nbEntries := Some n\<rparr>"
  from constructedD [OF assms(1)] assms(2) obtain old
    where et: "elementType this = FLOAT \<or> elementType this = BYTE"
      and old: "cpuArray this = Some old"
      and len: "int (ta_length old) = nbElements this * c"
      and big: "allocates mb (element_bytes (elementType this)) (nbElements this * c)"
    by auto
  have nn: "0 \<le> nbElements this * n" using assms(3,5) by simp
  have lt: "nbElements this * n < nbElements this * c" using assms(4,5) by simp
  have al: "allocates mb (element_bytes (elementType this)) (nbElements this * n)"
    using allocates_mono [OF big nn _ element_bytes_nonneg] lt by simp
  obtain this1 where r1: "Resize_cpuArray mb ?obj n = Inr this1"
    using Resize_cpuArray_returns [of ?obj mb n] et al by auto
  from Resize_cpuArray_Inr [OF r1] obtain a k
    where this1: "this1 = ?obj\<lparr>nbElementBytes := Some k, cpuArray := Some a\<rparr>"
      and a: "ta_all_zero a" "ta_length a = nat (nbElements this * n)"
    by fastforce
  define this1' where "this1' = this1\<lparr>nbBytes :=
     map_option (\<lambda>bytes. bytes * nbElements this1 * n) (nbElementBytes this1)\<rparr>"
  have a1: "cpuArray this1' = Some a" by (simp add: this1'_def this1)
  have short: "ta_length a < ta_length old" using a(2) len lt nn by linarith
  have r2: "Resize_copy (Some old) this1' = Inl (RangeError, this1')"
    by (simp add: Resize_copy_Some [OF a1] ta_set_throws [OF short])
  have "Resize mb n (this, gl) = Inl (RangeError, (this1', gl))"
    using r1 r2 old by (simp add: Resize_def Let_def this1'_def)
  moreover have "nbEntries this1' = Some n" "buffer this1' = buffer this"
    "texture this1' = texture this" "dirty this1' = dirty this"
    by (simp_all add: this1'_def this1)
  ultimately show ?thesis using a1 a nn old short by simp
qed

theorem Resize_shrink_throws_witness:
  "\<exists>this' a.
     Resize max_bytes0 2 float_example = Inl (RangeError, (this', snd float_example)) \<and>
     nbEntries this' = Some 2 \<and> cpuArray this' = Some a \<and> ta_all_zero a \<and>
     ta_length a = 6 \<and> buffer this' = Some 0"
proof -
  have h: "nbEntries (fst float_example) = Some 4" "(0::int) < 2" "(2::int) < 4"
    "0 < nbElements (fst float_example)"
    by (simp_all add: float_example_def)
  have b: "nbElements (fst float_example) = 3" "buffer (fst float_example) = Some 0"
    by (simp_all add: float_example_def)
  from Resize_shrink_throws [OF constructed_float_example h, of "snd float_example"] b
  show ?thesis by fastforce
qed

text \<open>
  C10. A constructor call without the buffer type gives what the call with
  \<open>glDynamicBufferType.Buffer\<close> gives, and the object it builds has the buffer type
  \<open>Buffer\<close>, also when the call throws; when it returns, the object has a GPU buffer and
  no texture, and the calls of the construction are \<open>createBuffer\<close>, \<open>bindBuffer\<close> and
  \<open>bufferData\<close>.
\<close>

theorem constructor_default_buffer_type:
  "constructor mb element_type nb_elements nb_entries None gl =
     constructor mb element_type nb_elements nb_entries (Some glDynamicBufferType_Buffer) gl \<and>
   (\<forall>this gl'.
      outcome_state (constructor mb element_type nb_elements nb_entries None gl) = (this, gl') \<longrightarrow>
      bufferType this = glDynamicBufferType_Buffer) \<and>
   (\<forall>this gl'.
      constructor mb element_type nb_elements nb_entries None gl = Inr (this, gl') \<longrightarrow>
      buffer this = Some (objects gl) \<and> texture this = None \<and>
      calls gl' =
        calls gl @ [CreateBuffer (objects gl), BindBuffer ARRAY_BUFFER (Some (objects gl)),
                    BufferData ARRAY_BUFFER (nbBytes this) DYNAMIC_DRAW])"
proof (intro conjI allI impI)
  show "constructor mb element_type nb_elements nb_entries None gl =
     constructor mb element_type nb_elements nb_entries (Some glDynamicBufferType_Buffer) gl"
    by (simp add: constructor_def)
next
  fix this gl'
  assume "outcome_state (constructor mb element_type nb_elements nb_entries None gl) =
      (this, gl')"
  from Resize_frame [OF this [unfolded constructor_def]]
  show "bufferType this = glDynamicBufferType_Buffer" by simp
next
  fix this gl'
  let ?obj = "\<lparr>elementType = element_type, nbElements = nb_elements,
         bufferType = glDynamicBufferType_Buffer,
         dirty = False, nbEntries = None, cpuArray = None, nbElementBytes = None,
         nbBytes = None, buffer = None, texture = None\<rparr>"
  assume "constructor mb element_type nb_elements nb_entries None gl = Inr (this, gl')"
  then have r: "Resize mb nb_entries (?obj, gl) = Inr (this, gl')"
    by (simp add: constructor_def)
  define built where "built =
     ?obj\<lparr>nbEntries := Some nb_entries,
           nbElementBytes := Some (element_bytes (elementType ?obj)),
           cpuArray := cpuArray this,
           nbBytes := Some (element_bytes (elementType ?obj) * nbElements ?obj * nb_entries)\<rparr>"
  have none: "cpuArray ?obj = None" by simp
  have g: "Resize_gpu (built, gl) = Inr (this, gl')"
    unfolding built_def using Resize_fresh [OF r none] by blast
  have nb: "nbBytes this =
      Some (element_bytes (elementType ?obj) * nbElements ?obj * nb_entries)"
    using Resize_fresh [OF r none] by blast
  have b: "bufferType built = glDynamicBufferType_Buffer" "texture built = None"
    "nbBytes built = nbBytes this"
    by (simp_all add: built_def nb)
  from Resize_gpu_Buffer [OF b(1), of gl] g
  have "this = built\<lparr>buffer := Some (objects gl)\<rparr>"
    and "gl' = bufferData ARRAY_BUFFER (nbBytes built) DYNAMIC_DRAW
            (bindBuffer ARRAY_BUFFER (Some (objects gl)) (snd (createBuffer gl)))"
    by simp_all
  with b show "buffer this = Some (objects gl)" and "texture this = None"
    and "calls gl' =
        calls gl @ [CreateBuffer (objects gl), BindBuffer ARRAY_BUFFER (Some (objects gl)),
                    BufferData ARRAY_BUFFER (nbBytes this) DYNAMIC_DRAW]"
    by (simp_all add: calls_simps)
qed

theorem constructor_default_buffer_type_witness:
  "constructor max_bytes0 FLOAT 3 4 None gl0 = Inr float_example \<and>
   bufferType (fst float_example) = glDynamicBufferType_Buffer \<and>
   buffer (fst float_example) = Some 0 \<and> texture (fst float_example) = None \<and>
   calls (snd float_example) =
     [CreateBuffer 0, BindBuffer ARRAY_BUFFER (Some 0),
      BufferData ARRAY_BUFFER (Some 48) DYNAMIC_DRAW]"
proof -
  note T = constructor_default_buffer_type [of max_bytes0 FLOAT 3 4 gl0]
  from T [THEN conjunct1] constructor_float_example
  have r: "constructor max_bytes0 FLOAT 3 4 None gl0 = Inr (fst float_example, snd float_example)"
    by simp
  then have o: "outcome_state (constructor max_bytes0 FLOAT 3 4 None gl0) =
      (fst float_example, snd float_example)"
    by simp
  from T [THEN conjunct2, THEN conjunct1, rule_format, OF o]
    T [THEN conjunct2, THEN conjunct2, rule_format, OF r] r
  show ?thesis by (simp add: gl0_def float_example_def)
qed
end
